theory Spec2Isabelle
  imports Main "HOL-Library.Sublist" "HOL-Library.AList"
begin

section \<open>Strings and dictionaries\<close>

text \<open>
  Python strings are modelled as \<open>string\<close>. \<open>str_split sep s\<close> is \<open>s.split(sep)\<close>
  for a non-empty separator: the pieces between the non-overlapping occurrences of
  \<open>sep\<close>, found from the left. Python rejects the empty separator with a ValueError;
  the program only ever splits on \<open>', '\<close> and \<open>';'\<close>.
\<close>

function str_split_aux :: "string \<Rightarrow> string \<Rightarrow> string \<Rightarrow> string list" where
  "str_split_aux sep acc [] = [rev acc]"
| "str_split_aux sep acc (c # cs) =
     (if sep \<noteq> [] \<and> prefix sep (c # cs)
      then rev acc # str_split_aux sep [] (drop (length sep) (c # cs))
      else str_split_aux sep (c # acc) cs)"
  by pat_completeness auto
termination
  by (relation "measure (\<lambda>(sep, acc, s). length s)") auto

definition str_split :: "string \<Rightarrow> string \<Rightarrow> string list" where
  "str_split sep s = str_split_aux sep [] s"

definition startswith :: "string \<Rightarrow> string \<Rightarrow> bool" where
  "startswith s p = prefix p s"

definition endswith :: "string \<Rightarrow> string \<Rightarrow> bool" where
  "endswith s p = suffix p s"

text \<open>
  A Python dict with string keys is an association list with distinct keys, in insertion
  order: \<open>map_of d k\<close> reads a key, \<open>AList.update k v d\<close> is \<open>d[k] = v\<close>.
\<close>

type_synonym dict = "(string \<times> string) list"

text \<open>
  The headers of a response are a case-insensitive dict (of the HTTP library):
  \<open>response.headers[k]\<close> finds the entry whose key equals \<open>k\<close> up to the case of
  ASCII letters.
\<close>

definition lower_char :: "char \<Rightarrow> char" where
  "lower_char c =
     (let n = (of_char c :: nat) in if 65 \<le> n \<and> n \<le> 90 then char_of (n + 32) else c)"

definition lower :: "string \<Rightarrow> string" where
  "lower s = map lower_char s"

definition response_header :: "dict \<Rightarrow> string \<Rightarrow> string option" where
  "response_header h k = map_of (map (\<lambda>(a, b). (lower a, b)) h) (lower k)"

section \<open>Errors\<close>

text \<open>
  Every \<open>raise\<close> of the source is a value of \<open>error\<close>. The source raises the generic
  \<open>Exception\<close> with a message; each constructor stands for one raise site, carrying the
  status code where the message does. \<open>KeyError\<close>, \<open>AttributeError\<close> and \<open>NotCallable\<close>
  are the interpreter's own exceptions (a missing dict key, an attribute of \<open>None\<close>,
  calling \<open>False\<close>); \<open>CodecError\<close> is a failure of the RDF library.
\<close>

datatype error =
    InvalidURIInput
  | ExpectingResourceType
  | RetrieveError int
  | TxnRetrieveError int
  | TxnContinueError int
  | TxnCloseError int
  | ResourceExistsAbort
  | CreateTargetMissing
  | CreateAlreadyExists
  | TombstoneNotRemoved int
  | TombstoneDetected
  | UnsupportedMediaType
  | CreateUnknownError int
  | MoveError int
  | CopyError int
  | TypeMismatch
  | MimetypeRequired
  | ContentRequired
  | KeyError string
  | AttributeError string
  | NotCallable
  | CodecError

section \<open>HTTP transport\<close>

record request =
  verb :: string
  req_uri :: string
  req_data :: "string option"
  req_headers :: "dict option"
  req_stream :: bool

record response =
  status_code :: int
  headers :: dict
  content :: string
  resp_text :: string

section \<open>Resource types\<close>

datatype resource_type = NonRDFSource | BasicContainer | DirectContainer | IndirectContainer

text \<open>
  \<open>API.parse_resource_type\<close>: the \<open>Link\<close> header is split on \<open>', '\<close>, the entries that
  start with the LDP namespace are kept and cut at their first \<open>';'\<close>, and the four type
  values are looked for in a fixed order. The result \<open>None\<close> is the source's \<open>False\<close>
  ("could not determine resource type"); a response without a \<open>Link\<close> header makes the
  dict lookup raise.
\<close>

definition parse_links :: "string \<Rightarrow> string list" where
  "parse_links link_header =
     [hd (str_split '';'' link).
        link \<leftarrow> str_split '', '' link_header,
        startswith link ''<http://www.w3.org/ns/ldp#'']"

definition parse_resource_type :: "response \<Rightarrow> error + resource_type option" where
  "parse_resource_type resp =
     (case response_header (headers resp) ''Link'' of
        None \<Rightarrow> Inl (KeyError ''Link'')
      | Some link_header \<Rightarrow>
          (let links = parse_links link_header in
           if ''<http://www.w3.org/ns/ldp#NonRDFSource>'' \<in> set links then Inr (Some NonRDFSource)
           else if ''<http://www.w3.org/ns/ldp#BasicContainer>'' \<in> set links then Inr (Some BasicContainer)
           else if ''<http://www.w3.org/ns/ldp#DirectContainer>'' \<in> set links then Inr (Some DirectContainer)
           else if ''<http://www.w3.org/ns/ldp#IndirectContainer>'' \<in> set links then Inr (Some IndirectContainer)
           else Inr None))"

section \<open>RDF terms and graphs\<close>

text \<open>
  The RDF library (rdflib) is an external collaborator. A term is a URI reference, a
  literal (lexical form and optional datatype URI) or a blank node; a graph is a
  duplicate-free list of triples, in iteration order. Typed Python values are kept as
  their lexical forms.
\<close>

datatype node = URIRef string | Literal string "string option" | BNode string

type_synonym triple = "node \<times> node \<times> node"

type_synonym graph = "triple list"

definition graph_add :: "triple \<Rightarrow> graph \<Rightarrow> graph" where
  "graph_add t g = (if t \<in> set g then g else g @ [t])"

definition graph_remove :: "triple \<Rightarrow> graph \<Rightarrow> graph" where
  "graph_remove t g = filter (\<lambda>x. x \<noteq> t) g"

definition graph_value :: "graph \<Rightarrow> node \<Rightarrow> node \<Rightarrow> node option" where
  "graph_value g s p =
     (case filter (\<lambda>(s', p', ob). s' = s \<and> p' = p) g of
        [] \<Rightarrow> None
      | (s', p', ob) # rest \<Rightarrow> Some ob)"

fun toPython :: "node \<Rightarrow> string" where
  "toPython (URIRef u) = u"
| "toPython (Literal l d) = l"
| "toPython (BNode b) = b"

record diffs =
  overlap :: graph
  removed :: graph
  added :: graph

section \<open>External collaborators\<close>

text \<open>
  What the program calls but does not contain is a parameter of the model: the transport
  (\<open>send\<close>: a request and the state of the world to a response and the new state), and of
  the RDF library the parser (payload and format to the triples and namespace bindings
  found, \<open>None\<close> when it raises), the serializer, the bindings of a fresh graph, the result
  of binding a prefix table into a namespace manager, \<open>compute_qname\<close> (prefix, namespace
  URI and local name of a predicate, \<open>None\<close> when the URI cannot be split) and
  \<open>to_canonical_graph\<close>.
\<close>

record 'w env =
  send :: "request \<Rightarrow> 'w \<Rightarrow> response \<times> 'w"
  graph_parse :: "string \<Rightarrow> string \<Rightarrow> (graph \<times> dict) option"
  graph_serialize :: "graph \<Rightarrow> string \<Rightarrow> string"
  fresh_namespaces :: dict
  bind_namespaces :: "dict \<Rightarrow> dict \<Rightarrow> dict"
  compute_qname :: "node \<Rightarrow> (string \<times> string \<times> string) option"
  to_canonical_graph :: "graph \<Rightarrow> graph"

section \<open>Repository\<close>

record repository =
  root :: string
  username :: string
  password :: string
  repo_context :: dict
  default_serialization :: string

definition default_context :: dict where
  "default_context =
     [(''premis'', ''http://www.loc.gov/premis/rdf/v1#''),
      (''test'', ''info:fedora/test/''),
      (''rdfs'', ''http://www.w3.org/2000/01/rdf-schema#''),
      (''dbpedia'', ''http://dbpedia.org/ontology/''),
      (''xsi'', ''http://www.w3.org/2001/XMLSchema-instance''),
      (''xmlns'', ''http://www.w3.org/2000/xmlns/''),
      (''rdf'', ''http://www.w3.org/1999/02/22-rdf-syntax-ns#''),
      (''fedora'', ''http://fedora.info/definitions/v4/repository#''),
      (''xml'', ''http://www.w3.org/XML/1998/namespace''),
      (''ebucore'', ''http://www.ebu.ch/metadata/ontologies/ebucore/ebucore#''),
      (''ldp'', ''http://www.w3.org/ns/ldp#''),
      (''xs'', ''http://www.w3.org/2001/XMLSchema''),
      (''fedoraconfig'', ''http://fedora.info/definitions/v4/config#''),
      (''foaf'', ''http://xmlns.com/foaf/0.1/''),
      (''dc'', ''http://purl.org/dc/elements/1.1/'')]"

definition dict_update_all :: "dict \<Rightarrow> dict \<Rightarrow> dict" where
  "dict_update_all new d = fold (\<lambda>(k, v). AList.update k v) new d"

definition Repository_init :: "string \<Rightarrow> string \<Rightarrow> string \<Rightarrow> dict option \<Rightarrow> string \<Rightarrow> repository" where
  "Repository_init rt usr pw ctx ser =
     \<lparr>root = (if endswith rt ''/'' then rt else rt @ ''/''),
      username = usr,
      password = pw,
      repo_context = (case ctx of None \<Rightarrow> default_context
                      | Some c \<Rightarrow> if c = [] then default_context else dict_update_all c default_context),
      default_serialization = ser\<rparr>"

text \<open>
  \<open>Repository.parse_uri\<close>. The input is absent (or falsy), a \<open>str\<close>, a URI reference, or
  of another type, for which the source raises a TypeError.
\<close>

datatype uri_input = NoURI | StrURI string | RefURI string | OtherURI

definition parse_uri :: "'a repository_scheme \<Rightarrow> uri_input \<Rightarrow> error + string" where
  "parse_uri rp u =
     (case u of
        NoURI \<Rightarrow> Inr (root rp)
      | StrURI s \<Rightarrow>
          if s = [] then Inr (root rp)
          else if \<not> startswith s ''http'' then Inr (root rp @ s)
          else Inr s
      | RefURI s \<Rightarrow> if s = [] then Inr (root rp) else Inr s
      | OtherURI \<Rightarrow> Inl InvalidURIInput)"

text \<open>
  \<open>API.http_request\<close>: for a GET of RDF the \<open>Accept\<close> header is set from the requested
  format or the repository's default; then the request goes to the transport. The
  \<open>files\<close> argument, which no caller passes, is left out.
\<close>

definition http_request ::
  "'w env \<Rightarrow> 'a repository_scheme \<Rightarrow> string \<Rightarrow> string \<Rightarrow> string option \<Rightarrow> dict option \<Rightarrow>
     string option \<Rightarrow> bool \<Rightarrow> bool \<Rightarrow> 'w \<Rightarrow> response \<times> 'w" where
  "http_request env rp vb u data hdrs response_format is_rdf stream w =
     (let hdrs' =
        (if is_rdf \<and> vb = ''GET'' then
           (let rf = (case response_format of
                        None \<Rightarrow> default_serialization rp
                      | Some f \<Rightarrow> if f = [] then default_serialization rp else f)
            in case hdrs of
                 None \<Rightarrow> Some [(''Accept'', rf)]
               | Some h \<Rightarrow>
                   if h \<noteq> [] \<and> map_of h ''Accept'' = None
                   then Some (AList.update ''Accept'' rf h)
                   else Some [(''Accept'', rf)])
         else hdrs)
      in send env \<lparr>verb = vb, req_uri = u, req_data = data, req_headers = hdrs',
                   req_stream = stream\<rparr> w)"

text \<open>The common call \<open>http_request(verb, uri)\<close> with every other argument at its default.\<close>

definition http_simple :: "'w env \<Rightarrow> 'a repository_scheme \<Rightarrow> string \<Rightarrow> string \<Rightarrow> 'w \<Rightarrow> response \<times> 'w" where
  "http_simple env rp vb u w = http_request env rp vb u None None None True False w"

section \<open>Resources\<close>

text \<open>
  The attributes of a \<open>Resource\<close> object. \<open>rdf\<close> is the namespace object \<open>self.rdf\<close>
  (\<open>None\<close> when the attribute holds Python's \<open>None\<close>): the payload, the prefix table and
  its reverse, the working graph \<open>rdf_graph\<close> with the bindings of its namespace manager,
  the snapshot \<open>orig_graph\<close>, the object-like view of the triples and the last diff.
  \<open>binary\<close> is \<open>self.binary\<close>, which only a NonRDFSource has; its data is a byte string
  or the streamed response of the binary's GET. \<open>rtype\<close> is the class of the object.
\<close>

type_synonym triples_view = "((string \<times> string) \<times> node list) list"

record rdf_state =
  rdf_data :: "string option"
  rdf_prefixes :: dict
  rdf_uris :: dict
  rdf_graph :: graph
  rdf_namespaces :: dict
  orig_graph :: graph
  rdf_triples :: triples_view
  rdf_diffs :: "diffs option"

datatype payload = Bytes string | ResponseStream response

record binary_state =
  delivery :: "string option"
  binary_data :: "payload option"
  binary_stream :: bool
  mimetype :: "string option"
  location :: "string option"

record resource =
  rtype :: resource_type
  repo :: repository
  uri :: string
  res_headers :: dict
  res_status_code :: "int option"
  exists :: bool
  rdf :: "rdf_state option"
  binary :: "binary_state option"
  versions :: "string list"

text \<open>\<open>API.parse_rdf_payload\<close>.\<close>

definition parse_rdf_payload :: "'w env \<Rightarrow> string option \<Rightarrow> dict \<Rightarrow> error + (graph \<times> dict)" where
  "parse_rdf_payload env data hdrs =
     (case map_of hdrs ''Content-Type'' of
        None \<Rightarrow> Inl (KeyError ''Content-Type'')
      | Some ct \<Rightarrow>
          (let parse_format = (if startswith ct ''text/plain'' then ''application/n-triples'' else ct);
               parse_format' = (if sublist '';charset'' parse_format
                                then hd (str_split '';'' parse_format) else parse_format)
           in case data of
                None \<Rightarrow> Inl (AttributeError ''decode'')
              | Some d \<Rightarrow>
                  (case graph_parse env d parse_format' of
                     None \<Rightarrow> Inl CodecError
                   | Some g \<Rightarrow> Inr g)))"

text \<open>
  \<open>Resource.parse_object_like_triples\<close>: every triple's object is appended under the
  prefix and local name of its predicate. The view built so far is returned also when
  \<open>compute_qname\<close> raises.
\<close>

fun object_like :: "(node \<Rightarrow> (string \<times> string \<times> string) option) \<Rightarrow> graph \<Rightarrow> triples_view
    \<Rightarrow> (error + unit) \<times> triples_view" where
  "object_like q [] acc = (Inr (), acc)"
| "object_like q ((s, p, ob) # ts) acc =
     (case q p of
        None \<Rightarrow> (Inl CodecError, acc)
      | Some (ns_prefix, ns_uri, predicate) \<Rightarrow>
          object_like q ts (map_default (ns_prefix, predicate) [ob] (\<lambda>os. os @ [ob]) acc))"

definition parse_object_like_triples :: "'w env \<Rightarrow> resource \<Rightarrow> (error + unit) \<times> resource" where
  "parse_object_like_triples env r =
     (case rdf r of
        None \<Rightarrow> (Inl (AttributeError ''triples''), r)
      | Some st \<Rightarrow>
          (case object_like (compute_qname env) (rdf_graph st) [] of
             (res, view) \<Rightarrow> (res, r\<lparr>rdf := Some (st\<lparr>rdf_triples := view\<rparr>)\<rparr>)))"

text \<open>
  \<open>Resource._parse_graph\<close>: the payload is parsed if the resource exists, else the graph
  is empty; the prefix table is bound into the graph, the graph's namespaces are added
  to the prefix table, the graph is copied to the snapshot, and the view is rebuilt.
\<close>

definition parse_graph :: "'w env \<Rightarrow> resource \<Rightarrow> (error + unit) \<times> resource" where
  "parse_graph env r =
     (case rdf r of
        None \<Rightarrow> (Inl (AttributeError ''data''), r)
      | Some st \<Rightarrow>
          (case (if exists r then parse_rdf_payload env (rdf_data st) (res_headers r)
                 else Inr ([], fresh_namespaces env)) of
             Inl e \<Rightarrow> (Inl e, r)
           | Inr (g, ns) \<Rightarrow>
               (let ns' = bind_namespaces env ns (rdf_prefixes st);
                    st' = st\<lparr>rdf_graph := g,
                             rdf_namespaces := ns',
                             rdf_prefixes := dict_update_all ns' (rdf_prefixes st),
                             rdf_uris := dict_update_all (map (\<lambda>(k, v). (v, k)) ns') (rdf_uris st),
                             orig_graph := g\<rparr>
                in parse_object_like_triples env (r\<lparr>rdf := Some st'\<rparr>))))"

text \<open>\<open>Resource._build_rdf\<close>. Like every method without a \<open>return\<close>, it returns \<open>None\<close>.\<close>

definition build_rdf :: "'w env \<Rightarrow> string option \<Rightarrow> resource \<Rightarrow> (error + unit) \<times> resource" where
  "build_rdf env data r =
     parse_graph env
       (r\<lparr>rdf := Some \<lparr>rdf_data = data,
                        rdf_prefixes = repo_context (repo r),
                        rdf_uris = [],
                        rdf_graph = [],
                        rdf_namespaces = [],
                        orig_graph = [],
                        rdf_triples = [],
                        rdf_diffs = None\<rparr>\<rparr>)"

text \<open>\<open>NonRDFSource._build_binary\<close>.\<close>

definition build_binary :: "resource \<Rightarrow> resource" where
  "build_binary r =
     r\<lparr>binary := Some \<lparr>delivery = None, binary_data = None, binary_stream = False,
                         mimetype = None, location = None\<rparr>\<rparr>"

text \<open>
  \<open>Resource._handle_object\<close> and \<open>Resource.add_triple\<close>, \<open>remove_triple\<close>. The object
  passed in is a Python \<open>str\<close>, \<open>int\<close>, \<open>float\<close> or \<open>datetime\<close> (given by its lexical
  form) or already an RDF term.
\<close>

datatype object_input = PyStr string | PyInt string | PyFloat string | PyDatetime string | PyTerm node

fun handle_object :: "object_input \<Rightarrow> node" where
  "handle_object (PyStr s) = Literal s (Some ''http://www.w3.org/2001/XMLSchema#string'')"
| "handle_object (PyInt s) = Literal s (Some ''http://www.w3.org/2001/XMLSchema#int'')"
| "handle_object (PyFloat s) = Literal s (Some ''http://www.w3.org/2001/XMLSchema#float'')"
| "handle_object (PyDatetime s) = Literal s (Some ''http://www.w3.org/2001/XMLSchema#date'')"
| "handle_object (PyTerm n) = n"

definition add_triple :: "'w env \<Rightarrow> node \<Rightarrow> object_input \<Rightarrow> bool \<Rightarrow> resource \<Rightarrow> (error + unit) \<times> resource" where
  "add_triple env p ob refresh_quick_triples r =
     (case rdf r of
        None \<Rightarrow> (Inl (AttributeError ''graph''), r)
      | Some st \<Rightarrow>
          (let r' = r\<lparr>rdf := Some (st\<lparr>rdf_graph :=
                        graph_add (URIRef (uri r), p, handle_object ob) (rdf_graph st)\<rparr>)\<rparr>
           in if refresh_quick_triples then parse_object_like_triples env r' else (Inr (), r')))"

definition remove_triple :: "'w env \<Rightarrow> node \<Rightarrow> object_input \<Rightarrow> bool \<Rightarrow> resource \<Rightarrow> (error + unit) \<times> resource" where
  "remove_triple env p ob refresh_quick_triples r =
     (case rdf r of
        None \<Rightarrow> (Inl (AttributeError ''graph''), r)
      | Some st \<Rightarrow>
          (let r' = r\<lparr>rdf := Some (st\<lparr>rdf_graph :=
                        graph_remove (URIRef (uri r), p, handle_object ob) (rdf_graph st)\<rparr>)\<rparr>
           in if refresh_quick_triples then parse_object_like_triples env r' else (Inr (), r')))"

text \<open>
  \<open>self.rdf.prefixes.<prefix>.<name>\<close>: the attribute lookup fails when the prefix is
  not in the table.
\<close>

definition ns_term :: "resource \<Rightarrow> string \<Rightarrow> string \<Rightarrow> error + node" where
  "ns_term r pre name =
     (case rdf r of
        None \<Rightarrow> Inl (AttributeError ''prefixes'')
      | Some st \<Rightarrow>
          (case map_of (rdf_prefixes st) pre of
             None \<Rightarrow> Inl (AttributeError pre)
           | Some ns \<Rightarrow> Inr (URIRef (ns @ name))))"

section \<open>Constructing resources\<close>

text \<open>
  \<open>Resource.__init__\<close>, run by every subclass constructor: \<open>exists\<close> is true exactly
  when the status code passed in is 200. Each resource has its own \<open>headers\<close> dict here;
  the default argument \<open>headers={}\<close> that Python shares between calls is not modelled.
\<close>

definition Resource_init ::
  "'w env \<Rightarrow> repository \<Rightarrow> resource_type \<Rightarrow> uri_input \<Rightarrow> string option \<Rightarrow> dict \<Rightarrow> int option
     \<Rightarrow> error + resource" where
  "Resource_init env rp t u data hdrs sc =
     (case parse_uri rp u of
        Inl e \<Rightarrow> Inl e
      | Inr u' \<Rightarrow>
          (let r = \<lparr>rtype = t, repo = rp, uri = u', res_headers = hdrs, res_status_code = sc,
                     exists = (sc = Some 200), rdf = None, binary = None, versions = []\<rparr>
           in case build_rdf env data r of
                (Inl e, r') \<Rightarrow> Inl e
              | (Inr x, r') \<Rightarrow> Inr (r'\<lparr>versions := []\<rparr>)))"

text \<open>
  \<open>NonRDFSource.parse_binary\<close>: the mimetype is read from the graph and the binary is
  requested as a stream.
\<close>

definition parse_binary :: "'w env \<Rightarrow> resource \<Rightarrow> 'w \<Rightarrow> (error + unit) \<times> resource \<times> 'w" where
  "parse_binary env r w =
     (case ns_term r ''ebucore'' ''hasMimeType'' of
        Inl e \<Rightarrow> (Inl e, r, w)
      | Inr p \<Rightarrow>
          (case graph_value (rdf_graph (the (rdf r))) (URIRef (uri r)) p of
             None \<Rightarrow> (Inl (AttributeError ''toPython''), r, w)
           | Some ob \<Rightarrow>
               (case binary r of
                  None \<Rightarrow> (Inl (AttributeError ''binary''), r, w)
                | Some b \<Rightarrow>
                    (let b' = b\<lparr>mimetype := Some (toPython ob)\<rparr>;
                         (resp, w') = http_request env (repo r) ''GET'' (uri r) None
                                        (Some [(''Content-Type'', toPython ob)]) None False True w
                     in (Inr (), r\<lparr>binary := Some (b'\<lparr>binary_data := Some (ResponseStream resp)\<rparr>)\<rparr>, w')))))"

text \<open>
  The constructors of the four classes. A NonRDFSource builds its binary attributes and,
  if it exists, fetches the binary; a Direct- or IndirectContainer adds its \<open>rdf:type\<close>
  triple and the membership triples passed in.
\<close>

fun add_optional :: "'w env \<Rightarrow> string \<Rightarrow> node option \<Rightarrow> resource \<Rightarrow> (error + unit) \<times> resource" where
  "add_optional env name None r = (Inr (), r)"
| "add_optional env name (Some ob) r =
     (case ns_term r ''ldp'' name of
        Inl e \<Rightarrow> (Inl e, r)
      | Inr p \<Rightarrow> add_triple env p (PyTerm ob) True r)"

definition add_type_triple :: "'w env \<Rightarrow> string \<Rightarrow> resource \<Rightarrow> (error + unit) \<times> resource" where
  "add_type_triple env name r =
     (case ns_term r ''rdf'' ''type'' of
        Inl e \<Rightarrow> (Inl e, r)
      | Inr p \<Rightarrow>
          (case ns_term r ''ldp'' name of
             Inl e \<Rightarrow> (Inl e, r)
           | Inr ob \<Rightarrow> add_triple env p (PyTerm ob) True r))"

definition new_resource ::
  "'w env \<Rightarrow> repository \<Rightarrow> resource_type \<Rightarrow> uri_input \<Rightarrow> string option \<Rightarrow> dict \<Rightarrow> int option
     \<Rightarrow> node option \<Rightarrow> node option \<Rightarrow> node option \<Rightarrow> 'w \<Rightarrow> (error + resource) \<times> 'w" where
  "new_resource env rp t u data hdrs sc membershipResource hasMemberRelation
       insertedContentRelation w =
     (case Resource_init env rp t u data hdrs sc of
        Inl e \<Rightarrow> (Inl e, w)
      | Inr r \<Rightarrow>
          (case t of
             NonRDFSource \<Rightarrow>
               (let r' = build_binary r in
                if exists r' then
                  (case parse_binary env r' w of
                     (Inl e, r'', w') \<Rightarrow> (Inl e, w')
                   | (Inr x, r'', w') \<Rightarrow> (Inr r'', w'))
                else (Inr r', w))
           | BasicContainer \<Rightarrow> (Inr r, w)
           | DirectContainer \<Rightarrow>
               (case add_type_triple env ''DirectContainer'' r of
                  (Inl e, r1) \<Rightarrow> (Inl e, w)
                | (Inr x, r1) \<Rightarrow>
                    (case add_optional env ''membershipResource'' membershipResource r1 of
                       (Inl e, r2) \<Rightarrow> (Inl e, w)
                     | (Inr x, r2) \<Rightarrow>
                         (case add_optional env ''hasMemberRelation'' hasMemberRelation r2 of
                            (Inl e, r3) \<Rightarrow> (Inl e, w)
                          | (Inr x, r3) \<Rightarrow> (Inr r3, w))))
           | IndirectContainer \<Rightarrow>
               (case add_type_triple env ''IndirectContainer'' r of
                  (Inl e, r1) \<Rightarrow> (Inl e, w)
                | (Inr x, r1) \<Rightarrow>
                    (case add_optional env ''membershipResource'' membershipResource r1 of
                       (Inl e, r2) \<Rightarrow> (Inl e, w)
                     | (Inr x, r2) \<Rightarrow>
                         (case add_optional env ''hasMemberRelation'' hasMemberRelation r2 of
                            (Inl e, r3) \<Rightarrow> (Inl e, w)
                          | (Inr x, r3) \<Rightarrow>
                              (case add_optional env ''insertedContentRelation''
                                      insertedContentRelation r3 of
                                 (Inl e, r4) \<Rightarrow> (Inl e, w)
                               | (Inr x, r4) \<Rightarrow> (Inr r4, w)))))))"

section \<open>Existence\<close>

text \<open>
  \<open>Resource.check_exists\<close>: a HEAD request; the status code is recorded, \<open>exists\<close> is set
  on 200, 410 and 404 only, and \<open>exists\<close> is returned. The method has no \<open>raise\<close>.
\<close>

definition check_exists :: "'w env \<Rightarrow> resource \<Rightarrow> 'w \<Rightarrow> (error + bool) \<times> resource \<times> 'w" where
  "check_exists env r w =
     (let (resp, w') = http_simple env (repo r) ''HEAD'' (uri r) w;
          r1 = r\<lparr>res_status_code := Some (status_code resp)\<rparr>;
          r2 = (if status_code resp = 200 then r1\<lparr>exists := True\<rparr>
                else if status_code resp = 410 then r1\<lparr>exists := False\<rparr>
                else if status_code resp = 404 then r1\<lparr>exists := False\<rparr>
                else r1)
      in (Inr (exists r2), r2, w'))"

section \<open>A scripted transport\<close>

text \<open>
  For evaluating the model on concrete inputs: the world is the list of responses still
  to be served and the log of the requests sent so far. Each request is logged and
  answered by the next response; when none is left the answer is a 500.
\<close>

type_synonym script = "response list \<times> request list"

definition plain_response :: "int \<Rightarrow> response" where
  "plain_response sc = \<lparr>status_code = sc, headers = [], content = [], resp_text = []\<rparr>"

definition scripted_send :: "request \<Rightarrow> script \<Rightarrow> response \<times> script" where
  "scripted_send req w =
     (case fst w of
        [] \<Rightarrow> (plain_response 500, ([], snd w @ [req]))
      | x # xs \<Rightarrow> (x, (xs, snd w @ [req])))"

definition split_hash :: "node \<Rightarrow> (string \<times> string \<times> string) option" where
  "split_hash n =
     (case n of
        URIRef u \<Rightarrow>
          (if CHR ''#'' \<in> set u
           then Some (''ns1'', rev (dropWhile (\<lambda>c. c \<noteq> CHR ''#'') (rev u)),
                      rev (takeWhile (\<lambda>c. c \<noteq> CHR ''#'') (rev u)))
           else None)
      | Literal l d \<Rightarrow> None
      | BNode b \<Rightarrow> None)"

definition test_env :: "script env" where
  "test_env =
     \<lparr>send = scripted_send,
      graph_parse = (\<lambda>d f. Some ([], [])),
      graph_serialize = (\<lambda>g f. []),
      fresh_namespaces = [],
      bind_namespaces = (\<lambda>ns pre. ns),
      compute_qname = split_hash,
      to_canonical_graph = (\<lambda>g. g)\<rparr>"

definition test_repo :: repository where
  "test_repo = Repository_init ''http://localhost:8080/rest'' ''u'' ''p'' None ''application/rdf+xml''"

definition blank_resource :: "resource_type \<Rightarrow> string \<Rightarrow> resource" where
  "blank_resource t u =
     \<lparr>rtype = t, repo = test_repo, uri = u, res_headers = [], res_status_code = None,
      exists = False,
      rdf = Some \<lparr>rdf_data = None, rdf_prefixes = default_context, rdf_uris = [],
                  rdf_graph = [], rdf_namespaces = [], orig_graph = [], rdf_triples = [],
                  rdf_diffs = None\<rparr>,
      binary = None, versions = []\<rparr>"

section \<open>Retrieving and refreshing\<close>

text \<open>
  \<open>str.rstrip(chars)\<close> removes every trailing character that occurs in \<open>chars\<close>.
\<close>

definition rstrip_chars :: "string \<Rightarrow> string \<Rightarrow> string" where
  "rstrip_chars s cs = rev (dropWhile (\<lambda>c. c \<in> set cs) (rev s))"

text \<open>
  \<open>Repository.get_resource\<close>: a HEAD request decides. On 404 the result is \<open>False\<close>
  (here \<open>None\<close>); on 200 the type is parsed from the response, the metadata is fetched
  and the class found is instantiated (calling \<open>False\<close>, when no type was found, is a
  TypeError); any other status raises.
\<close>

definition get_resource ::
  "'w env \<Rightarrow> repository \<Rightarrow> uri_input \<Rightarrow> string option \<Rightarrow> 'w \<Rightarrow> (error + resource option) \<times> 'w" where
  "get_resource env rp u response_format w =
     (case parse_uri rp u of
        Inl e \<Rightarrow> (Inl e, w)
      | Inr u0 \<Rightarrow>
          (let u1 = (if endswith u0 ''/fcr:metadata''
                     then rstrip_chars u0 ''/fcr:metadata'' else u0);
               (head_response, w1) = http_simple env rp ''HEAD'' u1 w
           in if status_code head_response = 404 then (Inr None, w1)
              else if status_code head_response = 200 then
                (case parse_resource_type head_response of
                   Inl e \<Rightarrow> (Inl e, w1)
                 | Inr resource_type \<Rightarrow>
                     (let (get_response, w2) =
                            http_request env rp ''GET'' (u1 @ ''/fcr:metadata'') None None
                              response_format True False w1
                      in case resource_type of
                           None \<Rightarrow> (Inl NotCallable, w2)
                         | Some t \<Rightarrow>
                             (case new_resource env rp t (RefURI u1)
                                     (Some (content get_response)) (headers get_response)
                                     (Some (status_code get_response)) None None None w2 of
                                (Inl e, w3) \<Rightarrow> (Inl e, w3)
                              | (Inr r, w3) \<Rightarrow> (Inr (Some r), w3))))
              else (Inl (RetrieveError (status_code head_response)), w1)))"

text \<open>
  \<open>Resource._empty_resource_attributes\<close>. The source assigns to \<open>self.rdf\<close> the value
  returned by \<open>self._build_rdf()\<close>, and that method returns \<open>None\<close>.
\<close>

definition empty_resource_attributes :: "'w env \<Rightarrow> resource \<Rightarrow> (error + unit) \<times> resource" where
  "empty_resource_attributes env r =
     (let r1 = r\<lparr>res_status_code := Some 404, res_headers := [], exists := False\<rparr>
      in case build_rdf env None r1 of
           (Inl e, r2) \<Rightarrow> (Inl e, r2)
         | (Inr x, r2) \<Rightarrow>
             (let r3 = r2\<lparr>rdf := None\<rparr>
              in (Inr (), if rtype r3 = NonRDFSource then build_binary r3 else r3)))"

text \<open>
  \<open>Resource.refresh\<close>. \<open>type(updated_self)\<close> is the class of the resource fetched, or
  \<open>bool\<close> when \<open>get_resource\<close> returned \<open>False\<close>; the comparison with the type of
  \<open>self\<close> comes before the test of \<open>updated_self\<close>.
\<close>

datatype py_type = BoolType | ResourceClass resource_type

fun py_type_of :: "resource option \<Rightarrow> py_type" where
  "py_type_of None = BoolType"
| "py_type_of (Some r) = ResourceClass (rtype r)"

definition refresh :: "'w env \<Rightarrow> resource \<Rightarrow> 'w \<Rightarrow> (error + unit) \<times> resource \<times> 'w" where
  "refresh env r w =
     (case get_resource env (repo r) (RefURI (uri r)) None w of
        (Inl e, w') \<Rightarrow> (Inl e, r, w')
      | (Inr updated_self, w') \<Rightarrow>
          if py_type_of updated_self \<noteq> ResourceClass (rtype r) then (Inl TypeMismatch, r, w')
          else
            (case updated_self of
               Some upd \<Rightarrow>
                 (let r1 = r\<lparr>res_status_code := res_status_code upd\<rparr>
                  in case rdf r1 of
                       None \<Rightarrow> (Inl (AttributeError ''data''), r1, w')
                     | Some st \<Rightarrow>
                         (case rdf upd of
                            None \<Rightarrow> (Inl (AttributeError ''data''), r1, w')
                          | Some upd_st \<Rightarrow>
                              (let r2 = r1\<lparr>rdf := Some (st\<lparr>rdf_data := rdf_data upd_st\<rparr>),
                                           res_headers := res_headers upd,
                                           exists := exists upd\<rparr>
                               in if rtype r2 \<noteq> NonRDFSource then
                                    (case parse_graph env r2 of
                                       (Inl e, r3) \<Rightarrow> (Inl e, r3, w')
                                     | (Inr x, r3) \<Rightarrow> (Inr (), r3\<lparr>versions := []\<rparr>, w'))
                                  else (Inr (), r2\<lparr>versions := []\<rparr>, w'))))
             | None \<Rightarrow>
                 (case empty_resource_attributes env r of
                    (res, r') \<Rightarrow> (res, r', w'))))"

section \<open>Deleting\<close>

text \<open>
  \<open>Resource.delete\<close>: the attributes are emptied on a 204; the tombstone is removed if
  asked for, whatever the status was; the result is always \<open>True\<close>.
\<close>

definition Resource_delete :: "'w env \<Rightarrow> bool \<Rightarrow> resource \<Rightarrow> 'w \<Rightarrow> (error + bool) \<times> resource \<times> 'w" where
  "Resource_delete env remove_tombstone r w =
     (let (response, w1) = http_simple env (repo r) ''DELETE'' (uri r) w
      in case (if status_code response = 204 then empty_resource_attributes env r
               else (Inr (), r)) of
           (Inl e, r1) \<Rightarrow> (Inl e, r1, w1)
         | (Inr x, r1) \<Rightarrow>
             (let w2 = (if remove_tombstone
                        then snd (http_simple env (repo r1) ''DELETE''
                                    (uri r1 @ ''/fcr:tombstone'') w1)
                        else w1)
              in (Inr True, r1, w2)))"

section \<open>Binary payloads\<close>

text \<open>
  Truth values of Python objects: a string is true when non-empty, \<open>None\<close> is false, a
  response object is true when its status is not a 4xx or 5xx.
\<close>

fun truthy :: "string option \<Rightarrow> bool" where
  "truthy None = False"
| "truthy (Some s) = (s \<noteq> [])"

fun payload_truthy :: "payload option \<Rightarrow> bool" where
  "payload_truthy None = False"
| "payload_truthy (Some (Bytes s)) = (s \<noteq> [])"
| "payload_truthy (Some (ResponseStream resp)) = (\<not> (400 \<le> status_code resp \<and> status_code resp < 600))"

fun payload_body :: "payload option \<Rightarrow> string option" where
  "payload_body None = None"
| "payload_body (Some (Bytes s)) = Some s"
| "payload_body (Some (ResponseStream resp)) = Some (content resp)"

text \<open>\<open>NonRDFSource._prep_binary_mimetype\<close> and \<open>_prep_binary_content\<close>, run in that order by \<open>_prep_binary_data\<close>.\<close>

definition prep_binary_mimetype :: "resource \<Rightarrow> (error + unit) \<times> resource" where
  "prep_binary_mimetype r =
     (case binary r of
        None \<Rightarrow> (Inl (AttributeError ''binary''), r)
      | Some b \<Rightarrow>
          if \<not> truthy (mimetype b) \<and> map_of (res_headers r) ''Content-Type'' = None
          then (Inl MimetypeRequired, r)
          else if truthy (mimetype b) \<and> map_of (res_headers r) ''Content-Type'' = None
          then (case mimetype b of
                  None \<Rightarrow> (Inr (), r)
                | Some m \<Rightarrow> (Inr (), r\<lparr>res_headers := AList.update ''Content-Type'' m (res_headers r)\<rparr>))
          else (Inr (), r))"

definition prep_binary_content :: "resource \<Rightarrow> (error + unit) \<times> resource" where
  "prep_binary_content r =
     (case binary r of
        None \<Rightarrow> (Inl (AttributeError ''binary''), r)
      | Some b \<Rightarrow>
          if \<not> payload_truthy (binary_data b) \<and> \<not> truthy (location b)
             \<and> map_of (res_headers r) ''Content-Location'' = None
          then (Inl ContentRequired, r)
          else if map_of (res_headers r) ''Content-Location'' \<noteq> None
          then (Inr (), r\<lparr>binary := Some (b\<lparr>delivery := Some ''header''\<rparr>)\<rparr>)
          else (case location b of
                  Some l \<Rightarrow>
                    if l \<noteq> []
                    then (Inr (), r\<lparr>res_headers := AList.update ''Content-Location'' l (res_headers r),
                                     binary := Some (b\<lparr>delivery := Some ''header''\<rparr>)\<rparr>)
                    else if payload_truthy (binary_data b)
                    then (Inr (), r\<lparr>binary := Some (b\<lparr>delivery := Some ''payload''\<rparr>)\<rparr>)
                    else (Inr (), r)
                | None \<Rightarrow>
                    if payload_truthy (binary_data b)
                    then (Inr (), r\<lparr>binary := Some (b\<lparr>delivery := Some ''payload''\<rparr>)\<rparr>)
                    else (Inr (), r)))"

definition prep_binary_data :: "resource \<Rightarrow> (error + unit) \<times> resource" where
  "prep_binary_data r =
     (case prep_binary_mimetype r of
        (Inl e, r1) \<Rightarrow> (Inl e, r1)
      | (Inr x, r1) \<Rightarrow> prep_binary_content r1)"

section \<open>Creating\<close>

text \<open>
  \<open>Resource.create\<close> and \<open>Resource._handle_create\<close>. The two call each other: on a 410
  with \<open>ignore_tombstone\<close> set, \<open>_handle_create\<close> removes the tombstone and calls
  \<open>self.create()\<close>, with every argument at its default (so with \<open>ignore_tombstone\<close> false,
  which ends the recursion). The value that call returns is dropped; an exception it
  raises propagates.
\<close>

function create ::
    "'w env \<Rightarrow> bool \<Rightarrow> bool \<Rightarrow> string option \<Rightarrow> bool \<Rightarrow> bool \<Rightarrow> resource \<Rightarrow> 'w
       \<Rightarrow> (error + bool) \<times> resource \<times> 'w"
  and handle_create ::
    "'w env \<Rightarrow> response \<Rightarrow> bool \<Rightarrow> bool \<Rightarrow> resource \<Rightarrow> 'w \<Rightarrow> (error + bool) \<times> resource \<times> 'w"
where
  "create env specify_uri ignore_tombstone serialization_format stream do_refresh r w =
     (if exists r then (Inl ResourceExistsAbort, r, w)
      else
        (let vb = (if specify_uri then ''PUT'' else ''POST'')
         in if rtype r = NonRDFSource then
              (case prep_binary_data r of
                 (Inl e, r1) \<Rightarrow> (Inl e, r1, w)
               | (Inr x, r1) \<Rightarrow>
                   (case binary r1 of
                      None \<Rightarrow> (Inl (AttributeError ''binary''), r1, w)
                    | Some b \<Rightarrow>
                        (let (response, w1) =
                               http_request env (repo r1) vb (uri r1) (payload_body (binary_data b))
                                 (Some (res_headers r1)) None True stream w
                         in handle_create env response ignore_tombstone do_refresh r1 w1)))
            else
              (case rdf r of
                 None \<Rightarrow> (Inl (AttributeError ''graph''), r, w)
               | Some st \<Rightarrow>
                   (let fmt = (if truthy serialization_format
                               then (case serialization_format of
                                       Some f \<Rightarrow> f
                                     | None \<Rightarrow> default_serialization (repo r))
                               else default_serialization (repo r));
                        data = graph_serialize env (rdf_graph st) fmt;
                        r1 = r\<lparr>res_headers := AList.update ''Content-Type'' fmt (res_headers r)\<rparr>;
                        (response, w1) =
                          http_request env (repo r1) vb (uri r1) (Some data)
                            (Some (res_headers r1)) None True stream w
                    in handle_create env response ignore_tombstone do_refresh r1 w1))))"
| "handle_create env response ignore_tombstone do_refresh r w =
     (if status_code response = 201 then
        (case parse_uri (repo r) (StrURI (resp_text response)) of
           Inl e \<Rightarrow> (Inl e, r, w)
         | Inr u \<Rightarrow>
             (let r1 = r\<lparr>uri := u\<rparr>
              in if do_refresh then
                   (case refresh env r1 w of
                      (Inl e, r2, w1) \<Rightarrow> (Inl e, r2, w1)
                    | (Inr x, r2, w1) \<Rightarrow> (Inr True, r2, w1))
                 else (Inr True, r1, w)))
      else if status_code response = 404 then (Inl CreateTargetMissing, r, w)
      else if status_code response = 409 then (Inl CreateAlreadyExists, r, w)
      else if status_code response = 410 then
        (if ignore_tombstone then
           (let (response', w1) =
                  http_simple env (repo r) ''DELETE'' (uri r @ ''/fcr:tombstone'') w
            in if status_code response' = 204 then
                 (case create env False False None False True r w1 of
                    (Inl e, r2, w2) \<Rightarrow> (Inl e, r2, w2)
                  | (Inr x, r2, w2) \<Rightarrow> (Inr True, r2, w2))
               else (Inl (TombstoneNotRemoved (status_code response')), r, w1))
         else (Inl TombstoneDetected, r, w))
      else if status_code response = 415 then (Inl UnsupportedMediaType, r, w)
      else (Inl (CreateUnknownError (status_code response)), r, w))"
  by pat_completeness auto
termination
  by (relation "measure (\<lambda>x. case x of
          Inl (env, specify_uri, ignore_tombstone, rest) \<Rightarrow> (if ignore_tombstone then 3 else 1)
        | Inr (env, response, ignore_tombstone, rest) \<Rightarrow> (if ignore_tombstone then 2 else 0))")
    auto

declare create.simps [simp del]

declare handle_create.simps [simp del]

section \<open>Moving and copying\<close>

text \<open>\<open>Resource.move\<close> and \<open>Resource.copy\<close>: anything but a 201 raises.\<close>

definition Resource_move ::
  "'w env \<Rightarrow> uri_input \<Rightarrow> bool \<Rightarrow> resource \<Rightarrow> 'w \<Rightarrow> (error + string) \<times> resource \<times> 'w" where
  "Resource_move env destination remove_tombstone r w =
     (case parse_uri (repo r) destination of
        Inl e \<Rightarrow> (Inl e, r, w)
      | Inr destination_uri \<Rightarrow>
          (let (response, w1) =
                 http_request env (repo r) ''MOVE'' (uri r) None
                   (Some [(''Destination'', destination_uri)]) None True False w
           in if status_code response = 201 then
                (let r1 = r\<lparr>exists := False\<rparr>;
                     w2 = (if remove_tombstone
                           then snd (http_simple env (repo r1) ''DELETE''
                                       (uri r1 @ ''/fcr:tombstone'') w1)
                           else w1)
                 in (Inr destination_uri, r1, w2))
              else (Inl (MoveError (status_code response)), r, w1)))"

definition Resource_copy ::
  "'w env \<Rightarrow> uri_input \<Rightarrow> resource \<Rightarrow> 'w \<Rightarrow> (error + string) \<times> resource \<times> 'w" where
  "Resource_copy env destination r w =
     (case parse_uri (repo r) destination of
        Inl e \<Rightarrow> (Inl e, r, w)
      | Inr destination_uri \<Rightarrow>
          (let (response, w1) =
                 http_request env (repo r) ''COPY'' (uri r) None
                   (Some [(''Destination'', destination_uri)]) None True False w
           in if status_code response = 201 then (Inr destination_uri, r, w1)
              else (Inl (CopyError (status_code response)), r, w1)))"

section \<open>Diff and SPARQL update\<close>

text \<open>
  \<open>Resource._diff_graph\<close> calls the RDF library's \<open>graph_diff\<close> on the snapshot and the
  working graph. \<open>graph_diff\<close> canonicalises both graphs and returns their intersection
  and the two differences (\<open>cg1 * cg2\<close>, \<open>cg1 - cg2\<close>, \<open>cg2 - cg1\<close>); \<open>to_isomorphic\<close>
  only wraps a graph and keeps its triples.
\<close>

definition graph_diff :: "'w env \<Rightarrow> graph \<Rightarrow> graph \<Rightarrow> graph \<times> graph \<times> graph" where
  "graph_diff env g1 g2 =
     (let cg1 = to_canonical_graph env g1;
          cg2 = to_canonical_graph env g2
      in (filter (\<lambda>t. t \<in> set cg2) cg1,
          filter (\<lambda>t. t \<notin> set cg2) cg1,
          filter (\<lambda>t. t \<notin> set cg1) cg2))"

definition diff_graphs :: "'w env \<Rightarrow> graph \<Rightarrow> graph \<Rightarrow> diffs" where
  "diff_graphs env orig working =
     (case graph_diff env orig working of
        (in_both, in_first, in_second) \<Rightarrow>
          \<lparr>overlap = in_both, removed = in_first, added = in_second\<rparr>)"

definition diff_graph :: "'w env \<Rightarrow> resource \<Rightarrow> (error + unit) \<times> resource" where
  "diff_graph env r =
     (case rdf r of
        None \<Rightarrow> (Inl (AttributeError ''_orig_graph''), r)
      | Some st \<Rightarrow>
          (Inr (), r\<lparr>rdf := Some (st\<lparr>rdf_diffs :=
                         Some (diff_graphs env (orig_graph st) (rdf_graph st))\<rparr>)\<rparr>))"

text \<open>
  \<open>SparqlUpdate._derive_namespaces\<close>: the namespace URIs of the predicates of the three
  graphs are collected (a Python set: here without duplicates, in order of first
  occurrence), then every entry of the prefix table whose URI is one of them is copied
  to \<open>update_prefixes\<close>. Nothing is done for a namespace URI that no prefix matches.
\<close>

fun collect_namespaces :: "(node \<Rightarrow> (string \<times> string \<times> string) option) \<Rightarrow> graph \<Rightarrow> string list
    \<Rightarrow> error + string list" where
  "collect_namespaces q [] acc = Inr acc"
| "collect_namespaces q ((s, p, ob) # ts) acc =
     (case q p of
        None \<Rightarrow> Inl CodecError
      | Some (ns_prefix, ns_uri, predicate) \<Rightarrow>
          collect_namespaces q ts (if ns_uri \<in> set acc then acc else acc @ [ns_uri]))"

definition pin_prefixes :: "dict \<Rightarrow> string list \<Rightarrow> dict" where
  "pin_prefixes prefix_table update_namespaces =
     fold (\<lambda>ns_uri up.
             fold (\<lambda>(k, v) up'. if ns_uri = v then AList.update k v up' else up') prefix_table up)
          update_namespaces []"

definition derive_namespaces :: "'w env \<Rightarrow> dict \<Rightarrow> diffs \<Rightarrow> error + (string list \<times> dict)" where
  "derive_namespaces env prefix_table d =
     (case collect_namespaces (compute_qname env) (overlap d) [] of
        Inl e \<Rightarrow> Inl e
      | Inr n1 \<Rightarrow>
          (case collect_namespaces (compute_qname env) (removed d) n1 of
             Inl e \<Rightarrow> Inl e
           | Inr n2 \<Rightarrow>
               (case collect_namespaces (compute_qname env) (added d) n2 of
                  Inl e \<Rightarrow> Inl e
                | Inr n3 \<Rightarrow> Inr (n3, pin_prefixes prefix_table n3))))"

text \<open>\<open>SparqlUpdate.build_query\<close>.\<close>

definition newline :: string where
  "newline = [CHR 0x0A]"

definition build_query :: "'w env \<Rightarrow> dict \<Rightarrow> diffs \<Rightarrow> error + string" where
  "build_query env prefix_table d =
     (case derive_namespaces env prefix_table d of
        Inl e \<Rightarrow> Inl e
      | Inr (update_namespaces, update_prefixes) \<Rightarrow>
          Inr (concat (map (\<lambda>(ns_prefix, ns_uri).
                         ''PREFIX '' @ ns_prefix @ '': <'' @ ns_uri @ ''>'' @ newline)
                       update_prefixes)
               @ newline @ ''DELETE {'' @ newline @ graph_serialize env (removed d) ''nt''
               @ ''}'' @ newline @ newline
               @ newline @ ''INSERT {'' @ newline @ graph_serialize env (added d) ''nt''
               @ ''}'' @ newline @ newline
               @ ''WHERE {}''))"

section \<open>Updating\<close>

text \<open>
  \<open>Resource.update\<close> returns the query text when asked for the query only, \<open>True\<close> when
  the PATCH is answered with 204, and otherwise falls off its end, returning \<open>None\<close>.
\<close>

datatype update_result = QueryText string | PyTrue | PyNone

definition Resource_update ::
  "'w env \<Rightarrow> bool \<Rightarrow> bool \<Rightarrow> resource \<Rightarrow> 'w \<Rightarrow> (error + update_result) \<times> resource \<times> 'w" where
  "Resource_update env sparql_query_only do_refresh r w =
     (case diff_graph env r of
        (Inl e, r1) \<Rightarrow> (Inl e, r1, w)
      | (Inr x, r1) \<Rightarrow>
          (case rdf r1 of
             None \<Rightarrow> (Inl (AttributeError ''prefixes''), r1, w)
           | Some st \<Rightarrow>
               (case rdf_diffs st of
                  None \<Rightarrow> (Inl (AttributeError ''diffs''), r1, w)
                | Some d \<Rightarrow>
                    (case build_query env (rdf_prefixes st) d of
                       Inl e \<Rightarrow> (Inl e, r1, w)
                     | Inr q \<Rightarrow>
                         if sparql_query_only then (Inr (QueryText q), r1, w)
                         else
                           (let (response, w1) =
                                  http_request env (repo r1) ''PATCH'' (uri r1) (Some q)
                                    (Some [(''Content-Type'', ''application/sparql-update'')])
                                    None True False w
                            in case (if rtype r1 = NonRDFSource then
                                       (case prep_binary_data r1 of
                                          (Inl e, r2) \<Rightarrow> (Inl e, r2, w1)
                                        | (Inr y, r2) \<Rightarrow>
                                            (case binary r2 of
                                               None \<Rightarrow> (Inl (AttributeError ''binary''), r2, w1)
                                             | Some b \<Rightarrow>
                                                 (case mimetype b of
                                                    None \<Rightarrow>
                                                      (Inr (), r2,
                                                       snd (http_request env (repo r2) ''PUT'' (uri r2)
                                                              (payload_body (binary_data b))
                                                              (Some [])
                                                              None True False w1))
                                                  | Some m \<Rightarrow>
                                                      (Inr (), r2,
                                                       snd (http_request env (repo r2) ''PUT'' (uri r2)
                                                              (payload_body (binary_data b))
                                                              (Some [(''Content-Type'', m)])
                                                              None True False w1)))))
                                     else (Inr (), r1, w1)) of
                                 (Inl e, r2, w2) \<Rightarrow> (Inl e, r2, w2)
                               | (Inr y, r2, w2) \<Rightarrow>
                                   if status_code response = 204 then
                                     (if do_refresh then
                                        (case refresh env r2 w2 of
                                           (Inl e, r3, w3) \<Rightarrow> (Inl e, r3, w3)
                                         | (Inr z, r3, w3) \<Rightarrow> (Inr PyTrue, r3, w3))
                                      else (Inr PyTrue, r2, w2))
                                   else (Inr PyNone, r2, w2))))))"

section \<open>Transactions\<close>

text \<open>
  A \<open>Transaction\<close> is a \<open>Repository\<close> rooted at the transaction URI, with a name, an
  expiry and the \<open>active\<close> flag.
\<close>

record transaction = repository +
  txn_name :: string
  expires :: "string option"
  active :: bool

text \<open>\<open>Transaction.keep_alive\<close>: 204 renews, 410 deactivates, any other status raises.\<close>

definition keep_alive :: "'w env \<Rightarrow> transaction \<Rightarrow> 'w \<Rightarrow> (error + bool) \<times> transaction \<times> 'w" where
  "keep_alive env txn w =
     (let (txn_response, w1) =
            http_request env txn ''POST'' (root txn @ ''fcr:tx'') None None None True False w
      in if status_code txn_response = 204 then
           (let txn1 = txn\<lparr>active := True\<rparr>
            in case response_header (headers txn_response) ''Expires'' of
                 None \<Rightarrow> (Inl (KeyError ''Expires''), txn1, w1)
               | Some e \<Rightarrow> (Inr True, txn1\<lparr>expires := Some e\<rparr>, w1))
         else if status_code txn_response = 410 then (Inr False, txn\<lparr>active := False\<rparr>, w1)
         else (Inl (TxnContinueError (status_code txn_response)), txn, w1))"

text \<open>
  \<open>Transaction._close\<close>, shared by \<open>commit\<close> and \<open>rollback\<close>: 204 closes, 404 and 410
  deactivate and return \<open>False\<close>, any other status raises.
\<close>

definition close :: "'w env \<Rightarrow> string \<Rightarrow> transaction \<Rightarrow> 'w \<Rightarrow> (error + bool) \<times> transaction \<times> 'w" where
  "close env close_type txn w =
     (let (txn_response, w1) =
            http_request env txn ''POST'' (root txn @ ''fcr:tx/fcr:'' @ close_type)
              None None None True False w
      in if status_code txn_response = 204 then (Inr True, txn\<lparr>active := False\<rparr>, w1)
         else if status_code txn_response \<in> {404, 410} then (Inr False, txn\<lparr>active := False\<rparr>, w1)
         else (Inl (TxnCloseError (status_code txn_response)), txn, w1))"

definition commit :: "'w env \<Rightarrow> transaction \<Rightarrow> 'w \<Rightarrow> (error + bool) \<times> transaction \<times> 'w" where
  "commit env txn w = close env ''commit'' txn w"

definition rollback :: "'w env \<Rightarrow> transaction \<Rightarrow> 'w \<Rightarrow> (error + bool) \<times> transaction \<times> 'w" where
  "rollback env txn w = close env ''rollback'' txn w"

definition test_txn :: transaction where
  "test_txn =
     \<lparr>root = ''http://localhost:8080/rest/tx:1/'', username = ''u'', password = ''p'',
      repo_context = default_context, default_serialization = ''application/rdf+xml'',
      txn_name = ''t'', expires = None, active = True\<rparr>"

section \<open>Further inputs for evaluation\<close>

text \<open>
  A canonicaliser that relabels blank nodes, as the RDF library's does: in a graph with
  one blank node that node gets the canonical label \<open>cb0\<close>, and every other term is
  kept. \<open>relabel_env\<close> is \<open>test_env\<close> with this canonicaliser.
\<close>

fun relabel_node :: "node \<Rightarrow> node" where
  "relabel_node (BNode b) = BNode ''cb0''"
| "relabel_node (URIRef u) = URIRef u"
| "relabel_node (Literal l d) = Literal l d"

definition relabel_graph :: "graph \<Rightarrow> graph" where
  "relabel_graph g = map (\<lambda>(s, p, ob). (relabel_node s, relabel_node p, relabel_node ob)) g"

definition relabel_env :: "script env" where
  "relabel_env = test_env\<lparr>to_canonical_graph := relabel_graph\<rparr>"

text \<open>
  The container at \<open>/x\<close> with a given snapshot graph and working graph, and a binary
  at \<open>/b\<close> with a mimetype and content.
\<close>

definition graph_state :: "graph \<Rightarrow> graph \<Rightarrow> rdf_state" where
  "graph_state orig working =
     \<lparr>rdf_data = None, rdf_prefixes = default_context, rdf_uris = [],
      rdf_graph = working, rdf_namespaces = [], orig_graph = orig,
      rdf_triples = [], rdf_diffs = None\<rparr>"

definition graph_resource :: "graph \<Rightarrow> graph \<Rightarrow> resource" where
  "graph_resource orig working =
     \<lparr>rtype = BasicContainer, repo = test_repo, uri = ''http://localhost:8080/rest/x'',
      res_headers = [], res_status_code = Some 200, exists = True,
      rdf = Some (graph_state orig working), binary = None, versions = []\<rparr>"

text \<open>
  Three graphs about \<open>/x\<close>: a snapshot with a title and a subject, a working graph in
  which the subject is replaced by a creator, and a graph whose one triple has a blank
  node as its object.
\<close>

definition snapshot_graph :: graph where
  "snapshot_graph =
     [(URIRef ''http://localhost:8080/rest/x'',
       URIRef ''http://purl.org/dc/elements/1.1/title'', Literal ''a'' None),
      (URIRef ''http://localhost:8080/rest/x'',
       URIRef ''http://purl.org/dc/elements/1.1/subject'', Literal ''b'' None)]"

definition working_graph :: graph where
  "working_graph =
     [(URIRef ''http://localhost:8080/rest/x'',
       URIRef ''http://purl.org/dc/elements/1.1/title'', Literal ''a'' None),
      (URIRef ''http://localhost:8080/rest/x'',
       URIRef ''http://purl.org/dc/elements/1.1/creator'', Literal ''c'' None)]"

definition blank_node_graph :: graph where
  "blank_node_graph =
     [(URIRef ''http://localhost:8080/rest/x'',
       URIRef ''http://purl.org/dc/elements/1.1/relation'', BNode ''b1'')]"

definition binary_resource :: "string option \<Rightarrow> resource" where
  "binary_resource mt =
     \<lparr>rtype = NonRDFSource, repo = test_repo, uri = ''http://localhost:8080/rest/b'',
      res_headers = [], res_status_code = None, exists = False,
      rdf = Some \<lparr>rdf_data = None, rdf_prefixes = default_context, rdf_uris = [],
                  rdf_graph = [], rdf_namespaces = [], orig_graph = [], rdf_triples = [],
                  rdf_diffs = None\<rparr>,
      binary = Some \<lparr>delivery = None, binary_data = Some (Bytes ''abc''),
                     binary_stream = False, mimetype = mt, location = None\<rparr>,
      versions = []\<rparr>"

text \<open>
  A \<open>Link\<close> header as the server and the HTTP library deliver it: one entry
  \<open><uri>;params\<close> for each link relation, the entries joined by \<open>', '\<close>.
\<close>

definition link_entry :: "string \<times> string \<Rightarrow> string" where
  "link_entry e = ''<'' @ fst e @ ''>;'' @ snd e"

fun join :: "string \<Rightarrow> string list \<Rightarrow> string" where
  "join sep [] = []"
| "join sep [x] = x"
| "join sep (x # y # ys) = x @ sep @ join sep (y # ys)"

definition link_header :: "(string \<times> string) list \<Rightarrow> string" where
  "link_header es = join '', '' (map link_entry es)"

text \<open>
  An N-Triples serialiser for the terms modelled here (one line \<open>s p o .\<close> for each
  triple), and \<open>nt_env\<close>, which is \<open>test_env\<close> with this serialiser.
\<close>

fun nt_node :: "node \<Rightarrow> string" where
  "nt_node (URIRef u) = ''<'' @ u @ ''>''"
| "nt_node (Literal l None) = [CHR 0x22] @ l @ [CHR 0x22]"
| "nt_node (Literal l (Some dt)) = [CHR 0x22] @ l @ [CHR 0x22] @ ''^^<'' @ dt @ ''>''"
| "nt_node (BNode b) = ''_:'' @ b"

definition nt_serialize :: "graph \<Rightarrow> string" where
  "nt_serialize g =
     concat (map (\<lambda>(s, p, ob). nt_node s @ '' '' @ nt_node p @ '' '' @ nt_node ob @ '' .''
                    @ newline) g)"

definition nt_env :: "script env" where
  "nt_env = test_env\<lparr>graph_serialize := (\<lambda>g f. nt_serialize g)\<rparr>"

text \<open>
  Two diffs that add one triple to \<open>/x\<close>: one whose predicate is in the namespace bound
  to the prefix \<open>rdf\<close> of the default context, one whose predicate is in a namespace
  that no prefix of the default context is bound to.
\<close>

definition bound_diff :: diffs where
  "bound_diff =
     \<lparr>overlap = [], removed = [],
      added = [(URIRef ''http://localhost:8080/rest/x'',
                URIRef ''http://www.w3.org/1999/02/22-rdf-syntax-ns#value'', Literal ''t'' None)]\<rparr>"

definition unbound_diff :: diffs where
  "unbound_diff =
     \<lparr>overlap = [], removed = [],
      added = [(URIRef ''http://localhost:8080/rest/x'',
                URIRef ''http://example.org/ns#title'', Literal ''t'' None)]\<rparr>"

text \<open>
  The parameter \<open>rel="type"\<close> of a link relation, and a response with status 200 whose
  only header is the \<open>Link\<close> header made of the given entries.
\<close>

definition rel_type :: string where
  "rel_type = ''rel='' @ [CHR 0x22] @ ''type'' @ [CHR 0x22]"

definition link_response :: "(string \<times> string) list \<Rightarrow> response" where
  "link_response es =
     \<lparr>status_code = 200, headers = [(''Link'', link_header es)], content = [], resp_text = []\<rparr>"

lemma str_split_aux_nonempty: "str_split_aux sep acc s \<noteq> []"
  by (induction sep acc s rule: str_split_aux.induct) auto

section \<open>Existence checks\<close>

text \<open>
  Claim C10. \<open>check_exists\<close> never raises, whatever the status of the response; and for
  every status other than 200, 404 and 410 it returns the \<open>exists\<close> flag the resource had
  before, leaves that flag unchanged and records the new status code.
\<close>

theorem check_exists_other_status:
  "(\<exists>b. fst (check_exists env r w) = Inr b) \<and>
   (status_code (fst (http_simple env (repo r) ''HEAD'' (uri r) w)) \<notin> {200, 404, 410} \<longrightarrow>
      check_exists env r w =
        (Inr (exists r),
         r\<lparr>res_status_code :=
             Some (status_code (fst (http_simple env (repo r) ''HEAD'' (uri r) w)))\<rparr>,
         snd (http_simple env (repo r) ''HEAD'' (uri r) w)))"
  by (simp add: check_exists_def Let_def split: prod.splits)

theorem check_exists_other_status_witness:
  "status_code (fst (http_simple test_env
       (repo (blank_resource BasicContainer ''http://localhost:8080/rest/x''))
       ''HEAD'' (uri (blank_resource BasicContainer ''http://localhost:8080/rest/x''))
       ([plain_response 500], []))) \<notin> {200, 404, 410}
   \<and> fst (check_exists test_env
        ((blank_resource BasicContainer ''http://localhost:8080/rest/x'')\<lparr>exists := True\<rparr>)
        ([plain_response 500], [])) = Inr True
   \<and> res_status_code (fst (snd (check_exists test_env
        ((blank_resource BasicContainer ''http://localhost:8080/rest/x'')\<lparr>exists := True\<rparr>)
        ([plain_response 500], [])))) = Some 500
   \<and> exists (fst (snd (check_exists test_env
        ((blank_resource BasicContainer ''http://localhost:8080/rest/x'')\<lparr>exists := True\<rparr>)
        ([plain_response 500], [])))) = True"
  using check_exists_other_status [of test_env
      "(blank_resource BasicContainer ''http://localhost:8080/rest/x'')\<lparr>exists := True\<rparr>"
      "([plain_response 500], [])"]
  by (simp add: http_simple_def http_request_def test_env_def scripted_send_def
      plain_response_def blank_resource_def)

section \<open>The \<open>exists\<close> flag\<close>

lemma exists_parse_object_like_triples:
  "exists (snd (parse_object_like_triples env r)) = exists r"
  by (simp add: parse_object_like_triples_def split: option.splits prod.splits)

lemma exists_parse_graph: "exists (snd (parse_graph env r)) = exists r"
  by (simp add: parse_graph_def Let_def exists_parse_object_like_triples
      split: option.splits sum.splits prod.splits)

lemma exists_build_rdf: "exists (snd (build_rdf env data r)) = exists r"
  by (simp add: build_rdf_def exists_parse_graph)

lemma exists_add_triple: "exists (snd (add_triple env p ob q r)) = exists r"
  by (simp add: add_triple_def Let_def exists_parse_object_like_triples split: option.splits)

lemma exists_add_optional: "exists (snd (add_optional env name ob r)) = exists r"
  by (cases ob) (simp_all add: exists_add_triple split: sum.splits)

lemma exists_add_type_triple: "exists (snd (add_type_triple env name r)) = exists r"
  by (simp add: add_type_triple_def exists_add_triple split: sum.splits)

lemma exists_add_optionalD:
  "add_optional env name ob r = (res, r') \<Longrightarrow> exists r' = exists r"
  using exists_add_optional [of env name ob r] by simp

lemma exists_add_type_tripleD:
  "add_type_triple env name r = (res, r') \<Longrightarrow> exists r' = exists r"
  using exists_add_type_triple [of env name r] by simp

lemma exists_parse_binary: "exists (fst (snd (parse_binary env r w))) = exists r"
  by (simp add: parse_binary_def Let_def split: sum.splits option.splits prod.splits)

lemma exists_Resource_init:
  "Resource_init env rp t u data hdrs sc = Inr r \<Longrightarrow> exists r = (sc = Some 200)"
proof -
  assume a: "Resource_init env rp t u data hdrs sc = Inr r"
  then obtain u' where pu: "parse_uri rp u = Inr u'"
    by (auto simp: Resource_init_def split: sum.splits)
  let ?r0 = "\<lparr>rtype = t, repo = rp, uri = u', res_headers = hdrs, res_status_code = sc,
                     exists = (sc = Some 200), rdf = None, binary = None, versions = []\<rparr>"
  from a pu have "r = (snd (build_rdf env data ?r0))\<lparr>versions := []\<rparr>"
    by (auto simp: Resource_init_def Let_def split: sum.splits prod.splits)
  then show ?thesis using exists_build_rdf [of env data ?r0] by simp
qed

lemma exists_new_resource:
  "fst (new_resource env rp t u data hdrs sc mr hmr icr w) = Inr r \<Longrightarrow> exists r = (sc = Some 200)"
proof -
  assume a: "fst (new_resource env rp t u data hdrs sc mr hmr icr w) = Inr r"
  then obtain r0 where i: "Resource_init env rp t u data hdrs sc = Inr r0"
    by (auto simp: new_resource_def split: sum.splits)
  have e0: "exists r0 = (sc = Some 200)" by (rule exists_Resource_init [OF i])
  show ?thesis
  proof (cases t)
    case NonRDFSource
    with a i e0 show ?thesis
      using exists_parse_binary [of env "build_binary r0" w]
      by (auto simp: new_resource_def Let_def build_binary_def split: sum.splits prod.splits if_splits)
  next
    case BasicContainer
    with a i e0 show ?thesis by (auto simp: new_resource_def)
  next
    case DirectContainer
    with a i e0 show ?thesis
      by (auto simp: new_resource_def split: sum.splits prod.splits
          dest!: exists_add_optionalD exists_add_type_tripleD)
  next
    case IndirectContainer
    with a i e0 show ?thesis
      by (auto simp: new_resource_def split: sum.splits prod.splits
          dest!: exists_add_optionalD exists_add_type_tripleD)
  qed
qed


text \<open>
  Claim C4, as amended. The \<open>exists\<close> flag is set from a status code by the constructor
  and by \<open>check_exists\<close>: a resource constructed from status \<open>sc\<close> has \<open>exists\<close> true
  exactly when \<open>sc\<close> is 200; \<open>check_exists\<close> makes it true on 200 and false on 404 and
  410.
\<close>

theorem exists_set_from_status:
  "(fst (new_resource env rp t u data hdrs sc mr hmr icr w) = Inr r \<longrightarrow>
      exists r = (sc = Some 200)) \<and>
   (status_code (fst (http_simple env (repo r0) ''HEAD'' (uri r0) w0)) = 200 \<longrightarrow>
      exists (fst (snd (check_exists env r0 w0)))) \<and>
   (status_code (fst (http_simple env (repo r0) ''HEAD'' (uri r0) w0)) \<in> {404, 410} \<longrightarrow>
      \<not> exists (fst (snd (check_exists env r0 w0))))"
proof (intro conjI impI)
  assume "fst (new_resource env rp t u data hdrs sc mr hmr icr w) = Inr r"
  then show "exists r = (sc = Some 200)" by (rule exists_new_resource)
next
  assume "status_code (fst (http_simple env (repo r0) ''HEAD'' (uri r0) w0)) = 200"
  then show "exists (fst (snd (check_exists env r0 w0)))"
    by (simp add: check_exists_def Let_def case_prod_beta)
next
  assume "status_code (fst (http_simple env (repo r0) ''HEAD'' (uri r0) w0)) \<in> {404, 410}"
  then show "\<not> exists (fst (snd (check_exists env r0 w0)))"
    by (auto simp: check_exists_def Let_def case_prod_beta)
qed

theorem exists_set_from_status_witness:
  "fst (new_resource test_env test_repo BasicContainer (StrURI ''x'') (Some [])
        [(''Content-Type'', ''text/turtle'')] (Some 200) None None None ([], []))
     = Inr (projr (fst (new_resource test_env test_repo BasicContainer (StrURI ''x'') (Some [])
        [(''Content-Type'', ''text/turtle'')] (Some 200) None None None ([], []))))
   \<and> exists (projr (fst (new_resource test_env test_repo BasicContainer (StrURI ''x'') (Some [])
        [(''Content-Type'', ''text/turtle'')] (Some 200) None None None ([], []))))
   \<and> status_code (fst (http_simple test_env
        (repo (blank_resource BasicContainer ''http://localhost:8080/rest/x''))
        ''HEAD'' (uri (blank_resource BasicContainer ''http://localhost:8080/rest/x''))
        ([plain_response 200], []))) = 200
   \<and> exists (fst (snd (check_exists test_env
        (blank_resource BasicContainer ''http://localhost:8080/rest/x'') ([plain_response 200], []))))
   \<and> status_code (fst (http_simple test_env
        (repo (blank_resource BasicContainer ''http://localhost:8080/rest/x''))
        ''HEAD'' (uri (blank_resource BasicContainer ''http://localhost:8080/rest/x''))
        ([plain_response 404], []))) \<in> {404, 410}
   \<and> \<not> exists (fst (snd (check_exists test_env
        ((blank_resource BasicContainer ''http://localhost:8080/rest/x'')\<lparr>exists := True\<rparr>)
        ([plain_response 404], []))))"
proof -
  have a: "\<not> isl (fst (new_resource test_env test_repo BasicContainer (StrURI ''x'') (Some [])
        [(''Content-Type'', ''text/turtle'')] (Some 200) None None None ([], [])))"
    by code_simp
  have b: "status_code (fst (http_simple test_env
        (repo (blank_resource BasicContainer ''http://localhost:8080/rest/x''))
        ''HEAD'' (uri (blank_resource BasicContainer ''http://localhost:8080/rest/x''))
        ([plain_response 200], []))) = 200"
    by code_simp
  have c: "status_code (fst (http_simple test_env
        (repo ((blank_resource BasicContainer ''http://localhost:8080/rest/x'')\<lparr>exists := True\<rparr>))
        ''HEAD'' (uri ((blank_resource BasicContainer ''http://localhost:8080/rest/x'')\<lparr>exists := True\<rparr>))
        ([plain_response 404], []))) = 404"
    by code_simp
  show ?thesis
    using a b c
      exists_set_from_status [of test_env test_repo BasicContainer "StrURI ''x''" "Some []"
        "[(''Content-Type'', ''text/turtle'')]" "Some 200" None None None "([], [])"
        "projr (fst (new_resource test_env test_repo BasicContainer (StrURI ''x'') (Some [])
        [(''Content-Type'', ''text/turtle'')] (Some 200) None None None ([], [])))"
        "blank_resource BasicContainer ''http://localhost:8080/rest/x''" "([plain_response 200], [])"]
      exists_set_from_status [of test_env test_repo BasicContainer "StrURI ''x''" "Some []"
        "[(''Content-Type'', ''text/turtle'')]" "Some 200" None None None "([], [])"
        "projr (fst (new_resource test_env test_repo BasicContainer (StrURI ''x'') (Some [])
        [(''Content-Type'', ''text/turtle'')] (Some 200) None None None ([], [])))"
        "(blank_resource BasicContainer ''http://localhost:8080/rest/x'')\<lparr>exists := True\<rparr>"
        "([plain_response 404], [])"]
    by simp
qed


text \<open>
  The claim as stated fails on a 201: a resource constructed from the status code 201
  has \<open>exists\<close> false.
\<close>

theorem exists_201_counterexample:
  "\<not> isl (fst (new_resource test_env test_repo BasicContainer (StrURI ''x'') None [] (Some 201)
        None None None ([], [])))
   \<and> res_status_code (projr (fst (new_resource test_env test_repo BasicContainer (StrURI ''x'')
        None [] (Some 201) None None None ([], [])))) = Some 201
   \<and> \<not> exists (projr (fst (new_resource test_env test_repo BasicContainer (StrURI ''x'')
        None [] (Some 201) None None None ([], []))))"
  by (simp add: new_resource_def Resource_init_def parse_uri_def test_repo_def Repository_init_def
      startswith_def endswith_def build_rdf_def parse_graph_def test_env_def
      parse_object_like_triples_def Let_def dict_update_all_def)

section \<open>Refreshing a resource that is gone\<close>

text \<open>
  Claim C5. When the server reports the resource gone, \<open>get_resource\<close> returns \<open>False\<close>;
  \<open>refresh\<close> then compares \<open>type(False)\<close> with the class of the resource, which always
  differ, and raises the type-mismatch exception before it reaches the branch that
  empties the attributes. The resource is left as it was.
\<close>

theorem refresh_gone_raises:
  "fst (get_resource env (repo r) (RefURI (uri r)) None w) = Inr None \<longrightarrow>
     fst (refresh env r w) = Inl TypeMismatch \<and> fst (snd (refresh env r w)) = r"
  by (auto simp: refresh_def split: prod.splits sum.splits)

theorem refresh_gone_raises_witness:
  "fst (get_resource test_env
        (repo ((blank_resource BasicContainer ''http://localhost:8080/rest/x'')\<lparr>exists := True\<rparr>))
        (RefURI (uri ((blank_resource BasicContainer ''http://localhost:8080/rest/x'')\<lparr>exists := True\<rparr>)))
        None ([plain_response 404], [])) = Inr None
   \<and> fst (refresh test_env
        ((blank_resource BasicContainer ''http://localhost:8080/rest/x'')\<lparr>exists := True\<rparr>)
        ([plain_response 404], [])) = Inl TypeMismatch
   \<and> exists (fst (snd (refresh test_env
        ((blank_resource BasicContainer ''http://localhost:8080/rest/x'')\<lparr>exists := True\<rparr>)
        ([plain_response 404], []))))"
proof -
  have a: "fst (get_resource test_env
        (repo ((blank_resource BasicContainer ''http://localhost:8080/rest/x'')\<lparr>exists := True\<rparr>))
        (RefURI (uri ((blank_resource BasicContainer ''http://localhost:8080/rest/x'')\<lparr>exists := True\<rparr>)))
        None ([plain_response 404], [])) = Inr None"
    by code_simp
  show ?thesis
    using a refresh_gone_raises [of test_env
        "(blank_resource BasicContainer ''http://localhost:8080/rest/x'')\<lparr>exists := True\<rparr>"
        "([plain_response 404], [])"]
    by simp
qed

section \<open>Deleting a resource\<close>

lemma empty_resource_attributes_result:
  "fst (empty_resource_attributes env r) = Inr ()
   \<and> rdf (snd (empty_resource_attributes env r)) = None
   \<and> \<not> exists (snd (empty_resource_attributes env r))
   \<and> res_headers (snd (empty_resource_attributes env r)) = []
   \<and> res_status_code (snd (empty_resource_attributes env r)) = Some 404
   \<and> uri (snd (empty_resource_attributes env r)) = uri r
   \<and> repo (snd (empty_resource_attributes env r)) = repo r"
  by (simp add: empty_resource_attributes_def build_rdf_def parse_graph_def
      parse_object_like_triples_def Let_def build_binary_def)

text \<open>
  A resource that is not yet created holds two empty graphs: the state Claim C6 compares
  with.
\<close>

lemma not_yet_created_graphs:
  "map_option rdf_graph (rdf (projr (fst (new_resource test_env test_repo BasicContainer
       (StrURI ''x'') None [] None None None None ([], []))))) = Some []
   \<and> map_option orig_graph (rdf (projr (fst (new_resource test_env test_repo BasicContainer
       (StrURI ''x'') None [] None None None None ([], []))))) = Some []"
  by code_simp

text \<open>
  Claim C6. After a delete that the server confirms with 204 the result is \<open>True\<close>,
  \<open>exists\<close> is false and the headers are empty, but \<open>self.rdf\<close> is \<open>None\<close>: the resource
  holds no snapshot graph and no working graph, where the claim says both are empty
  graphs.
\<close>

theorem delete_confirmed_rdf_none:
  "status_code (fst (http_simple env (repo r) ''DELETE'' (uri r) w)) = 204 \<longrightarrow>
     fst (Resource_delete env remove_tombstone r w) = Inr True
     \<and> \<not> exists (fst (snd (Resource_delete env remove_tombstone r w)))
     \<and> res_headers (fst (snd (Resource_delete env remove_tombstone r w))) = []
     \<and> rdf (fst (snd (Resource_delete env remove_tombstone r w))) = None"
proof
  assume a: "status_code (fst (http_simple env (repo r) ''DELETE'' (uri r) w)) = 204"
  obtain x r' where e: "empty_resource_attributes env r = (x, r')"
    by (cases "empty_resource_attributes env r")
  with empty_resource_attributes_result [of env r]
  have "x = Inr ()" "rdf r' = None" "\<not> exists r'" "res_headers r' = []" by simp_all
  with a e show "fst (Resource_delete env remove_tombstone r w) = Inr True
     \<and> \<not> exists (fst (snd (Resource_delete env remove_tombstone r w)))
     \<and> res_headers (fst (snd (Resource_delete env remove_tombstone r w))) = []
     \<and> rdf (fst (snd (Resource_delete env remove_tombstone r w))) = None"
    by (simp add: Resource_delete_def Let_def case_prod_beta)
qed

theorem delete_confirmed_rdf_none_witness:
  "status_code (fst (http_simple test_env
        (repo ((blank_resource BasicContainer ''http://localhost:8080/rest/x'')\<lparr>exists := True\<rparr>))
        ''DELETE''
        (uri ((blank_resource BasicContainer ''http://localhost:8080/rest/x'')\<lparr>exists := True\<rparr>))
        ([plain_response 204, plain_response 204], []))) = 204
   \<and> fst (Resource_delete test_env True
        ((blank_resource BasicContainer ''http://localhost:8080/rest/x'')\<lparr>exists := True\<rparr>)
        ([plain_response 204, plain_response 204], [])) = Inr True
   \<and> rdf (fst (snd (Resource_delete test_env True
        ((blank_resource BasicContainer ''http://localhost:8080/rest/x'')\<lparr>exists := True\<rparr>)
        ([plain_response 204, plain_response 204], [])))) = None"
proof -
  have a: "status_code (fst (http_simple test_env
        (repo ((blank_resource BasicContainer ''http://localhost:8080/rest/x'')\<lparr>exists := True\<rparr>))
        ''DELETE''
        (uri ((blank_resource BasicContainer ''http://localhost:8080/rest/x'')\<lparr>exists := True\<rparr>))
        ([plain_response 204, plain_response 204], []))) = 204"
    by code_simp
  show ?thesis
    using a delete_confirmed_rdf_none [of test_env
        "(blank_resource BasicContainer ''http://localhost:8080/rest/x'')\<lparr>exists := True\<rparr>"
        "([plain_response 204, plain_response 204], [])" True]
    by simp
qed

section \<open>Tombstone recovery\<close>

text \<open>
  Claim C3. A container is created at \<open>/x\<close> with \<open>specify_uri\<close> and \<open>ignore_tombstone\<close>
  set; the server answers the PUT with 410 and the removal of the tombstone with 204.
  The retry is \<open>self.create()\<close> with default arguments, so the second create request is
  a POST to \<open>/x\<close>, not the PUT of the original call; the server, where \<open>/x\<close> no longer
  exists, answers 404, and \<open>create\<close> raises with \<open>exists\<close> still false. One
  tombstone-clear request and two create requests were issued, but the two create
  requests differ.
\<close>

theorem create_retry_drops_arguments:
  "map verb (snd (snd (snd (create test_env True True None False True
       (blank_resource BasicContainer ''http://localhost:8080/rest/x'')
       ([plain_response 410, plain_response 204, plain_response 404], [])))))
     = [''PUT'', ''DELETE'', ''POST'']
   \<and> map req_uri (snd (snd (snd (create test_env True True None False True
       (blank_resource BasicContainer ''http://localhost:8080/rest/x'')
       ([plain_response 410, plain_response 204, plain_response 404], [])))))
     = [''http://localhost:8080/rest/x'', ''http://localhost:8080/rest/x/fcr:tombstone'',
        ''http://localhost:8080/rest/x'']
   \<and> fst (create test_env True True None False True
       (blank_resource BasicContainer ''http://localhost:8080/rest/x'')
       ([plain_response 410, plain_response 204, plain_response 404], [])) = Inl CreateTargetMissing
   \<and> exists (fst (snd (create test_env True True None False True
       (blank_resource BasicContainer ''http://localhost:8080/rest/x'')
       ([plain_response 410, plain_response 204, plain_response 404], [])))) = False"
  by code_simp

section \<open>The diff before an update\<close>

text \<open>
  Claim C1, as amended. For a resource with snapshot graph \<open>G\<close> and working graph \<open>G2\<close>,
  \<open>_diff_graph\<close> stores at \<open>self.rdf.diffs\<close> three graphs (overlap, removed, added)
  computed from the canonical forms of \<open>G\<close> and \<open>G2\<close>, and changes nothing else. The
  three are pairwise disjoint; the added and the overlapping triples together are the
  canonical form of \<open>G2\<close>, the removed and the overlapping triples together that of
  \<open>G\<close>; and these are \<open>G2\<close> and \<open>G\<close> themselves whenever canonicalisation leaves the
  two graphs as they are. In particular no triple is both removed and added.
\<close>

theorem diff_graph_partition:
  "rdf r = Some st \<longrightarrow>
     (\<exists>d. diff_graph env r = (Inr (), r\<lparr>rdf := Some (st\<lparr>rdf_diffs := Some d\<rparr>)\<rparr>)
        \<and> set (added d) \<union> set (overlap d) = set (to_canonical_graph env (rdf_graph st))
        \<and> set (removed d) \<union> set (overlap d) = set (to_canonical_graph env (orig_graph st))
        \<and> set (overlap d) \<inter> set (removed d) = {}
        \<and> set (overlap d) \<inter> set (added d) = {}
        \<and> set (removed d) \<inter> set (added d) = {}
        \<and> (to_canonical_graph env (orig_graph st) = orig_graph st
            \<and> to_canonical_graph env (rdf_graph st) = rdf_graph st \<longrightarrow>
              set (added d) \<union> set (overlap d) = set (rdf_graph st)
              \<and> set (removed d) \<union> set (overlap d) = set (orig_graph st)))"
proof
  assume a: "rdf r = Some st"
  let ?d = "diff_graphs env (orig_graph st) (rdf_graph st)"
  have 1: "diff_graph env r = (Inr (), r\<lparr>rdf := Some (st\<lparr>rdf_diffs := Some ?d\<rparr>)\<rparr>)"
    using a by (simp add: diff_graph_def)
  have 2: "set (added ?d) \<union> set (overlap ?d) = set (to_canonical_graph env (rdf_graph st))"
    by (auto simp: diff_graphs_def graph_diff_def Let_def)
  have 3: "set (removed ?d) \<union> set (overlap ?d) = set (to_canonical_graph env (orig_graph st))"
    by (auto simp: diff_graphs_def graph_diff_def Let_def)
  have 4: "set (overlap ?d) \<inter> set (removed ?d) = {}"
    "set (overlap ?d) \<inter> set (added ?d) = {}"
    "set (removed ?d) \<inter> set (added ?d) = {}"
    by (auto simp: diff_graphs_def graph_diff_def Let_def)
  from 1 2 3 4 show "\<exists>d. diff_graph env r = (Inr (), r\<lparr>rdf := Some (st\<lparr>rdf_diffs := Some d\<rparr>)\<rparr>)
        \<and> set (added d) \<union> set (overlap d) = set (to_canonical_graph env (rdf_graph st))
        \<and> set (removed d) \<union> set (overlap d) = set (to_canonical_graph env (orig_graph st))
        \<and> set (overlap d) \<inter> set (removed d) = {}
        \<and> set (overlap d) \<inter> set (added d) = {}
        \<and> set (removed d) \<inter> set (added d) = {}
        \<and> (to_canonical_graph env (orig_graph st) = orig_graph st
            \<and> to_canonical_graph env (rdf_graph st) = rdf_graph st \<longrightarrow>
              set (added d) \<union> set (overlap d) = set (rdf_graph st)
              \<and> set (removed d) \<union> set (overlap d) = set (orig_graph st))"
    by (intro exI [of _ ?d]) simp
qed

theorem diff_graph_partition_witness:
  "rdf (graph_resource snapshot_graph working_graph)
     = Some (graph_state snapshot_graph working_graph)
   \<and> to_canonical_graph test_env snapshot_graph = snapshot_graph
   \<and> to_canonical_graph test_env working_graph = working_graph
   \<and> (\<exists>d. diff_graph test_env (graph_resource snapshot_graph working_graph)
            = (Inr (), (graph_resource snapshot_graph working_graph)
                 \<lparr>rdf := Some ((graph_state snapshot_graph working_graph)\<lparr>rdf_diffs := Some d\<rparr>)\<rparr>)
          \<and> set (added d) \<union> set (overlap d) = set working_graph
          \<and> set (removed d) \<union> set (overlap d) = set snapshot_graph
          \<and> set (removed d) \<inter> set (added d) = {})"
proof -
  have a: "rdf (graph_resource snapshot_graph working_graph)
     = Some (graph_state snapshot_graph working_graph)"
    by (simp add: graph_resource_def)
  have b: "to_canonical_graph test_env snapshot_graph = snapshot_graph"
    "to_canonical_graph test_env working_graph = working_graph"
    by (simp_all add: test_env_def)
  have c: "orig_graph (graph_state snapshot_graph working_graph) = snapshot_graph"
    "rdf_graph (graph_state snapshot_graph working_graph) = working_graph"
    by (simp_all add: graph_state_def)
  show ?thesis
    using a b diff_graph_partition [where r = "graph_resource snapshot_graph working_graph"
        and st = "graph_state snapshot_graph working_graph" and env = test_env]
    unfolding c
    by blast
qed

text \<open>
  The claim as stated, with \<open>G2\<close> and \<open>G\<close> themselves, fails for a graph with a blank
  node: canonicalisation gives the node another label, so for a snapshot and a working
  graph that both hold the one triple with object \<open>_:b1\<close> the overlap holds a triple
  with object \<open>_:cb0\<close>, which is in neither graph, and the added and overlapping
  triples together are not the working graph.
\<close>

theorem diff_graph_blank_node_counterexample:
  "diff_graph relabel_env (graph_resource blank_node_graph blank_node_graph)
     = (Inr (), (graph_resource blank_node_graph blank_node_graph)
          \<lparr>rdf := Some ((graph_state blank_node_graph blank_node_graph)
             \<lparr>rdf_diffs := Some
                \<lparr>overlap = [(URIRef ''http://localhost:8080/rest/x'',
                             URIRef ''http://purl.org/dc/elements/1.1/relation'', BNode ''cb0'')],
                 removed = [], added = []\<rparr>\<rparr>)\<rparr>)
   \<and> set ([] :: graph)
       \<union> set [(URIRef ''http://localhost:8080/rest/x'',
                URIRef ''http://purl.org/dc/elements/1.1/relation'', BNode ''cb0'')]
     \<noteq> set blank_node_graph"
  by code_simp

section \<open>Transactions that are gone\<close>

text \<open>
  Claim C9. \<open>commit\<close> and \<open>rollback\<close> are the shared \<open>_close\<close>, which on 404 and on 410
  returns \<open>False\<close> and deactivates the transaction, and on 204 returns \<open>True\<close> and
  deactivates it. \<open>keep_alive\<close> returns \<open>False\<close> and deactivates on 410, but on a 404 it
  raises and leaves the \<open>active\<close> flag as it was.
\<close>

theorem txn_gone_handling:
  "(status_code (fst (http_request env txn ''POST'' (root txn @ ''fcr:tx'') None None None True False w)) = 404 \<longrightarrow>
      fst (keep_alive env txn w) = Inl (TxnContinueError 404)
      \<and> active (fst (snd (keep_alive env txn w))) = active txn)
   \<and> (status_code (fst (http_request env txn ''POST'' (root txn @ ''fcr:tx'') None None None True False w)) = 410 \<longrightarrow>
      fst (keep_alive env txn w) = Inr False
      \<and> \<not> active (fst (snd (keep_alive env txn w))))
   \<and> (status_code (fst (http_request env txn ''POST'' (root txn @ ''fcr:tx/fcr:'' @ close_type) None None None True False w)) \<in> {404, 410} \<longrightarrow>
      fst (close env close_type txn w) = Inr False
      \<and> \<not> active (fst (snd (close env close_type txn w))))
   \<and> (status_code (fst (http_request env txn ''POST'' (root txn @ ''fcr:tx/fcr:'' @ close_type) None None None True False w)) = 204 \<longrightarrow>
      fst (close env close_type txn w) = Inr True
      \<and> \<not> active (fst (snd (close env close_type txn w))))
   \<and> commit env txn w = close env ''commit'' txn w
   \<and> rollback env txn w = close env ''rollback'' txn w"
  by (auto simp: keep_alive_def close_def commit_def rollback_def Let_def case_prod_beta)

theorem txn_gone_handling_witness:
  "status_code (fst (http_request test_env test_txn ''POST'' (root test_txn @ ''fcr:tx'')
       None None None True False ([plain_response 404], []))) = 404
   \<and> fst (keep_alive test_env test_txn ([plain_response 404], [])) = Inl (TxnContinueError 404)
   \<and> active (fst (snd (keep_alive test_env test_txn ([plain_response 404], []))))
   \<and> status_code (fst (http_request test_env test_txn ''POST'' (root test_txn @ ''fcr:tx'')
       None None None True False ([plain_response 410], []))) = 410
   \<and> fst (keep_alive test_env test_txn ([plain_response 410], [])) = Inr False
   \<and> status_code (fst (http_request test_env test_txn ''POST''
       (root test_txn @ ''fcr:tx/fcr:'' @ ''commit'') None None None True False
       ([plain_response 404], []))) \<in> {404, 410}
   \<and> fst (commit test_env test_txn ([plain_response 404], [])) = Inr False
   \<and> \<not> active (fst (snd (commit test_env test_txn ([plain_response 404], []))))
   \<and> status_code (fst (http_request test_env test_txn ''POST''
       (root test_txn @ ''fcr:tx/fcr:'' @ ''rollback'') None None None True False
       ([plain_response 204], []))) = 204
   \<and> fst (rollback test_env test_txn ([plain_response 204], [])) = Inr True
   \<and> \<not> active (fst (snd (rollback test_env test_txn ([plain_response 204], []))))"
proof -
  have a: "status_code (fst (http_request test_env test_txn ''POST'' (root test_txn @ ''fcr:tx'')
       None None None True False ([plain_response 404], []))) = 404"
    by code_simp
  have b: "status_code (fst (http_request test_env test_txn ''POST'' (root test_txn @ ''fcr:tx'')
       None None None True False ([plain_response 410], []))) = 410"
    by code_simp
  have c: "status_code (fst (http_request test_env test_txn ''POST''
       (root test_txn @ ''fcr:tx/fcr:'' @ ''commit'') None None None True False
       ([plain_response 404], []))) = 404"
    by code_simp
  have d: "status_code (fst (http_request test_env test_txn ''POST''
       (root test_txn @ ''fcr:tx/fcr:'' @ ''rollback'') None None None True False
       ([plain_response 204], []))) = 204"
    by code_simp
  have e: "active test_txn" by (simp add: test_txn_def)
  show ?thesis
    using a b c d e
      txn_gone_handling [of test_env test_txn "([plain_response 404], [])" "''commit''"]
      txn_gone_handling [of test_env test_txn "([plain_response 410], [])" "''commit''"]
      txn_gone_handling [of test_env test_txn "([plain_response 204], [])" "''rollback''"]
    by simp
qed

section \<open>What happens to an unexpected status\<close>

lemma delete_returns_True: "fst (Resource_delete env remove_tombstone r w) = Inr True"
proof -
  obtain x r' where e: "empty_resource_attributes env r = (x, r')"
    by (cases "empty_resource_attributes env r")
  with empty_resource_attributes_result [of env r] have "x = Inr ()" by simp
  with e show ?thesis
    by (simp add: Resource_delete_def Let_def case_prod_beta)
qed

lemma handle_create_raises:
  "status_code response \<noteq> 201 \<Longrightarrow> \<not> (status_code response = 410 \<and> ignore_tombstone) \<Longrightarrow>
     isl (fst (handle_create env response ignore_tombstone do_refresh r w))"
  by (auto simp: handle_create.simps)

lemma create_rdf_raises:
  assumes "\<not> exists r" and "rtype r \<noteq> NonRDFSource" and "rdf r = Some st"
    and "fmt = (case serialization_format of
                  None \<Rightarrow> default_serialization (repo r)
                | Some f \<Rightarrow> if f = [] then default_serialization (repo r) else f)"
    and "status_code (fst (http_request env (repo r) (if specify_uri then ''PUT'' else ''POST'')
            (uri r) (Some (graph_serialize env (rdf_graph st) fmt))
            (Some (AList.update ''Content-Type'' fmt (res_headers r))) None True stream w)) = sc"
    and "sc \<noteq> 201" and "\<not> (sc = 410 \<and> ignore_tombstone)"
  shows "isl (fst (create env specify_uri ignore_tombstone serialization_format stream
            do_refresh r w))"
proof (cases serialization_format)
  case None
  with assms show ?thesis
    by (simp add: create.simps Let_def case_prod_beta handle_create_raises)
next
  case (Some f)
  with assms show ?thesis
    by (cases "f = []") (simp_all add: create.simps Let_def case_prod_beta handle_create_raises)
qed

lemma create_binary_raises:
  assumes "\<not> exists r" and "rtype r = NonRDFSource" and "prep_binary_data r = (Inr (), r1)"
    and "binary r1 = Some b"
    and "status_code (fst (http_request env (repo r1) (if specify_uri then ''PUT'' else ''POST'')
            (uri r1) (payload_body (binary_data b)) (Some (res_headers r1)) None True stream
            w)) = sc"
    and "sc \<noteq> 201" and "\<not> (sc = 410 \<and> ignore_tombstone)"
  shows "isl (fst (create env specify_uri ignore_tombstone serialization_format stream
            do_refresh r w))"
  using assms
  by (simp add: create.simps Let_def case_prod_beta handle_create_raises)

lemma delete_resource_after:
  "fst (snd (Resource_delete env remove_tombstone r w))
     = (if status_code (fst (http_simple env (repo r) ''DELETE'' (uri r) w)) = 204
        then snd (empty_resource_attributes env r) else r)"
proof -
  obtain x r' where e: "empty_resource_attributes env r = (x, r')"
    by (cases "empty_resource_attributes env r")
  with empty_resource_attributes_result [of env r] have "x = Inr ()" by simp
  with e show ?thesis
    by (simp add: Resource_delete_def Let_def case_prod_beta)
qed

lemma prep_binary_mimetype_rdf:
  "prep_binary_mimetype (r\<lparr>rdf := x\<rparr>)
     = (fst (prep_binary_mimetype r), (snd (prep_binary_mimetype r))\<lparr>rdf := x\<rparr>)"
  by (simp add: prep_binary_mimetype_def split: option.splits)

lemma prep_binary_content_rdf:
  "prep_binary_content (r\<lparr>rdf := x\<rparr>)
     = (fst (prep_binary_content r), (snd (prep_binary_content r))\<lparr>rdf := x\<rparr>)"
  by (simp add: prep_binary_content_def split: option.splits)

lemma prep_binary_data_rdf:
  "prep_binary_data (r\<lparr>rdf := x\<rparr>)
     = (fst (prep_binary_data r), (snd (prep_binary_data r))\<lparr>rdf := x\<rparr>)"
  by (simp add: prep_binary_data_def prep_binary_mimetype_rdf prep_binary_content_rdf
      case_prod_beta split: sum.splits)

lemma prep_binary_mimetype_binary:
  "fst (prep_binary_mimetype r) = Inr u \<Longrightarrow> binary (snd (prep_binary_mimetype r)) \<noteq> None"
  by (auto simp: prep_binary_mimetype_def split: option.splits if_splits)

lemma prep_binary_content_binary:
  "fst (prep_binary_content r) = Inr u \<Longrightarrow> binary (snd (prep_binary_content r)) \<noteq> None"
  by (auto simp: prep_binary_content_def split: option.splits if_splits)

lemma prep_binary_data_binary:
  assumes "fst (prep_binary_data r) = Inr u"
  shows "binary (snd (prep_binary_data r)) \<noteq> None"
proof (cases "fst (prep_binary_mimetype r)")
  case (Inl e)
  with assms show ?thesis
    by (simp add: prep_binary_data_def case_prod_beta split: sum.splits)
next
  case (Inr v)
  with assms have "fst (prep_binary_content (snd (prep_binary_mimetype r))) = Inr u"
    by (simp add: prep_binary_data_def case_prod_beta split: sum.splits)
  from prep_binary_content_binary [OF this] Inr show ?thesis
    by (simp add: prep_binary_data_def case_prod_beta split: sum.splits)
qed

lemma update_not_confirmed:
  assumes "rdf r = Some st"
    and "build_query env (rdf_prefixes st) (diff_graphs env (orig_graph st) (rdf_graph st)) = Inr q"
    and "status_code (fst (http_request env (repo r) ''PATCH'' (uri r) (Some q)
            (Some [(''Content-Type'', ''application/sparql-update'')]) None True False w)) \<noteq> 204"
  shows "fst (Resource_update env False do_refresh r w)
           = (if rtype r = NonRDFSource
              then (case fst (prep_binary_data r) of Inl e \<Rightarrow> Inl e | Inr u \<Rightarrow> Inr PyNone)
              else Inr PyNone)"
proof (cases "rtype r = NonRDFSource")
  case False
  with assms show ?thesis
    by (simp add: Resource_update_def diff_graph_def Let_def case_prod_beta)
next
  case True
  show ?thesis
  proof (cases "fst (prep_binary_data r)")
    case (Inl e)
    with True assms show ?thesis
      by (simp add: Resource_update_def diff_graph_def Let_def case_prod_beta
          prep_binary_data_rdf)
  next
    case (Inr u)
    from prep_binary_data_binary [OF Inr]
    obtain b where b: "binary (snd (prep_binary_data r)) = Some b" by auto
    with Inr True assms show ?thesis
      by (simp add: Resource_update_def diff_graph_def Let_def case_prod_beta
          prep_binary_data_rdf split: option.splits)
  qed
qed





section \<open>Prefixes of an update document\<close>

lemma collect_namespaces_ok:
  "\<forall>t\<in>set g. q (fst (snd t)) \<noteq> None \<Longrightarrow>
     \<exists>r. collect_namespaces q g acc = Inr r
        \<and> set r = set acc \<union> (\<lambda>t. fst (snd (the (q (fst (snd t)))))) ` set g"
proof (induction g arbitrary: acc)
  case Nil
  then show ?case by simp
next
  case (Cons t g)
  obtain s p ob where t: "t = (s, p, ob)" by (cases t)
  from Cons.prems t obtain a n c where qp: "q p = Some (a, n, c)" by (cases "q p") auto
  from Cons.prems have "\<forall>t\<in>set g. q (fst (snd t)) \<noteq> None" by simp
  from Cons.IH [OF this, of "if n \<in> set acc then acc else acc @ [n]"]
  obtain r where r: "collect_namespaces q g (if n \<in> set acc then acc else acc @ [n]) = Inr r"
    "set r = set (if n \<in> set acc then acc else acc @ [n])
        \<union> (\<lambda>t. fst (snd (the (q (fst (snd t)))))) ` set g"
    by blast
  with t qp show ?case by auto
qed

lemma update_set_subset: "set (AList.update k v al) \<subseteq> insert (k, v) (set al)"
  by (induction al) auto

lemma update_mem_self: "(k, v) \<in> set (AList.update k v al)"
  by (induction al) auto

lemma update_mem_other:
  "(k, v) \<in> set al \<Longrightarrow> k' \<noteq> k \<or> v' = v \<Longrightarrow> (k, v) \<in> set (AList.update k' v' al)"
  by (induction al) auto

lemma pin_inner_subset:
  "set xs \<subseteq> set pt \<Longrightarrow> n \<in> N \<Longrightarrow> set up \<subseteq> {(k, v). (k, v) \<in> set pt \<and> v \<in> N} \<Longrightarrow>
     set (fold (\<lambda>(k, v) up'. if n = v then AList.update k v up' else up') xs up)
       \<subseteq> {(k, v). (k, v) \<in> set pt \<and> v \<in> N}"
proof (induction xs arbitrary: up)
  case Nil
  then show ?case by simp
next
  case (Cons x xs)
  obtain k v where x: "x = (k, v)" by (cases x)
  have "set (if n = v then AList.update k v up else up) \<subseteq> {(k, v). (k, v) \<in> set pt \<and> v \<in> N}"
    using Cons.prems x update_set_subset [of k v up] by auto
  from Cons.IH [OF _ Cons.prems(2) this] Cons.prems(1) x show ?case by simp
qed

lemma pin_outer_subset:
  "set ns \<subseteq> N \<Longrightarrow> set up \<subseteq> {(k, v). (k, v) \<in> set pt \<and> v \<in> N} \<Longrightarrow>
     set (fold (\<lambda>n up. fold (\<lambda>(k, v) up'. if n = v then AList.update k v up' else up') pt up)
            ns up)
       \<subseteq> {(k, v). (k, v) \<in> set pt \<and> v \<in> N}"
proof (induction ns arbitrary: up)
  case Nil
  then show ?case by simp
next
  case (Cons n ns)
  from Cons.prems have n: "n \<in> N" by simp
  from pin_inner_subset [OF subset_refl n Cons.prems(2)]
  have "set (fold (\<lambda>(k, v) up'. if n = v then AList.update k v up' else up') pt up)
       \<subseteq> {(k, v). (k, v) \<in> set pt \<and> v \<in> N}" .
  from Cons.IH [OF _ this] Cons.prems(1) show ?case by simp
qed

lemma pin_prefixes_subset:
  "set (pin_prefixes pt ns) \<subseteq> {(k, v). (k, v) \<in> set pt \<and> v \<in> set ns}"
  unfolding pin_prefixes_def
  by (rule pin_outer_subset) simp_all

lemma pin_inner_keeps:
  "distinct (map fst pt) \<Longrightarrow> set xs \<subseteq> set pt \<Longrightarrow> (k, v) \<in> set pt \<Longrightarrow> (k, v) \<in> set up \<Longrightarrow>
     (k, v) \<in> set (fold (\<lambda>(k, v) up'. if n = v then AList.update k v up' else up') xs up)"
proof (induction xs arbitrary: up)
  case Nil
  then show ?case by simp
next
  case (Cons x xs)
  obtain k' v' where x: "x = (k', v')" by (cases x)
  from Cons.prems x have "(k', v') \<in> set pt" by simp
  with Cons.prems(1,3) have "k' \<noteq> k \<or> v' = v"
    by (meson eq_key_imp_eq_value)
  from update_mem_other [OF Cons.prems(4) this]
  have "(k, v) \<in> set (if n = v' then AList.update k' v' up else up)"
    using Cons.prems(4) by simp
  from Cons.IH [OF Cons.prems(1) _ Cons.prems(3) this] Cons.prems(2) x show ?case by simp
qed

lemma pin_inner_adds:
  "distinct (map fst pt) \<Longrightarrow> set xs \<subseteq> set pt \<Longrightarrow> (k, n) \<in> set xs \<Longrightarrow>
     (k, n) \<in> set (fold (\<lambda>(k, v) up'. if n = v then AList.update k v up' else up') xs up)"
proof (induction xs arbitrary: up)
  case Nil
  then show ?case by simp
next
  case (Cons x xs)
  obtain k' v' where x: "x = (k', v')" by (cases x)
  from Cons.prems(2) have sub: "set xs \<subseteq> set pt" and kn: "(k, n) \<in> set pt \<or> (k, n) \<notin> set (x # xs)"
    by auto
  show ?case
  proof (cases "x = (k, n)")
    case True
    have "(k, n) \<in> set (AList.update k n up)" by (rule update_mem_self)
    from pin_inner_keeps [OF Cons.prems(1) sub _ this, of n] Cons.prems(2,3) True
    show ?thesis by auto
  next
    case False
    with Cons.prems(3) have "(k, n) \<in> set xs" by simp
    from Cons.IH [OF Cons.prems(1) sub this] x show ?thesis by simp
  qed
qed

lemma pin_outer_keeps:
  "distinct (map fst pt) \<Longrightarrow> (k, v) \<in> set pt \<Longrightarrow> (k, v) \<in> set up \<Longrightarrow>
     (k, v) \<in> set (fold (\<lambda>n up. fold (\<lambda>(k, v) up'. if n = v then AList.update k v up' else up')
                                  pt up) ns up)"
proof (induction ns arbitrary: up)
  case Nil
  then show ?case by simp
next
  case (Cons n ns)
  from pin_inner_keeps [OF Cons.prems(1) subset_refl Cons.prems(2,3), of n]
  have "(k, v) \<in> set (fold (\<lambda>(k, v) up'. if n = v then AList.update k v up' else up') pt up)" .
  from Cons.IH [OF Cons.prems(1,2) this] show ?case by simp
qed

lemma pin_outer_adds:
  "distinct (map fst pt) \<Longrightarrow> (k, v) \<in> set pt \<Longrightarrow> v \<in> set ns \<Longrightarrow>
     (k, v) \<in> set (fold (\<lambda>n up. fold (\<lambda>(k, v) up'. if n = v then AList.update k v up' else up')
                                  pt up) ns up)"
proof (induction ns arbitrary: up)
  case Nil
  then show ?case by simp
next
  case (Cons n ns)
  show ?case
  proof (cases "n = v")
    case True
    from pin_inner_adds [OF Cons.prems(1) subset_refl, of k v up] Cons.prems(2)
    have "(k, v) \<in> set (fold (\<lambda>(k, v') up'. if v = v' then AList.update k v' up' else up') pt up)"
      by simp
    from pin_outer_keeps [OF Cons.prems(1,2) this, of ns] True show ?thesis by simp
  next
    case False
    with Cons.prems(3) have "v \<in> set ns" by simp
    from Cons.IH [OF Cons.prems(1,2) this] show ?thesis by simp
  qed
qed

lemma pin_prefixes_distinct:
  "distinct (map fst pt) \<Longrightarrow>
     set (pin_prefixes pt ns) = {(k, v). (k, v) \<in> set pt \<and> v \<in> set ns}"
proof
  show "set (pin_prefixes pt ns) \<subseteq> {(k, v). (k, v) \<in> set pt \<and> v \<in> set ns}"
    by (rule pin_prefixes_subset)
next
  assume d: "distinct (map fst pt)"
  show "{(k, v). (k, v) \<in> set pt \<and> v \<in> set ns} \<subseteq> set (pin_prefixes pt ns)"
    unfolding pin_prefixes_def using pin_outer_adds [OF d] by auto
qed

lemma derive_namespaces_ok:
  assumes "\<forall>t\<in>set (overlap d @ removed d @ added d). compute_qname env (fst (snd t)) \<noteq> None"
  shows "\<exists>ns. derive_namespaces env pt d = Inr (ns, pin_prefixes pt ns)
           \<and> set ns = (\<lambda>t. fst (snd (the (compute_qname env (fst (snd t))))))
                         ` set (overlap d @ removed d @ added d)"
proof -
  let ?q = "compute_qname env"
  let ?f = "\<lambda>t. fst (snd (the (?q (fst (snd t)))))"
  from assms have a: "\<forall>t\<in>set (overlap d). ?q (fst (snd t)) \<noteq> None"
    "\<forall>t\<in>set (removed d). ?q (fst (snd t)) \<noteq> None"
    "\<forall>t\<in>set (added d). ?q (fst (snd t)) \<noteq> None"
    by auto
  from collect_namespaces_ok [OF a(1), of "[]"]
  obtain n1 where n1: "collect_namespaces ?q (overlap d) [] = Inr n1"
    "set n1 = ?f ` set (overlap d)" by auto
  from collect_namespaces_ok [OF a(2), of n1]
  obtain n2 where n2: "collect_namespaces ?q (removed d) n1 = Inr n2"
    "set n2 = set n1 \<union> ?f ` set (removed d)" by auto
  from collect_namespaces_ok [OF a(3), of n2]
  obtain n3 where n3: "collect_namespaces ?q (added d) n2 = Inr n3"
    "set n3 = set n2 \<union> ?f ` set (added d)" by auto
  from n1 n2 n3 have "derive_namespaces env pt d = Inr (n3, pin_prefixes pt n3)"
    by (simp add: derive_namespaces_def)
  moreover from n1 n2 n3 have "set n3 = ?f ` set (overlap d @ removed d @ added d)"
    by auto
  ultimately show ?thesis by blast
qed

text \<open>
  Claim C7, as amended. Building the update document does not fail when the namespace
  of a predicate has no prefix in the prefix table of the resource. Whenever the RDF
  library can split every predicate of the three graphs of the diff into a namespace
  and a local name, \<open>build_query\<close> returns a document: \<open>PREFIX\<close> lines, then the
  \<open>DELETE\<close> block with the removed and the \<open>INSERT\<close> block with the added triples as
  N-Triples, then \<open>WHERE {}\<close>. Every \<open>PREFIX\<close> line is an entry of the prefix table
  whose URI is the namespace of one of those predicates, and when no prefix occurs
  twice in the table there is one line for each such entry; a namespace that no prefix
  is bound to gets no line and raises nothing.
\<close>

theorem build_query_unbound_namespace:
  "(\<forall>t\<in>set (overlap d @ removed d @ added d). compute_qname env (fst (snd t)) \<noteq> None) \<longrightarrow>
     (\<exists>ns up. derive_namespaces env prefix_table d = Inr (ns, up)
        \<and> build_query env prefix_table d
            = Inr (concat (map (\<lambda>(ns_prefix, ns_uri).
                             ''PREFIX '' @ ns_prefix @ '': <'' @ ns_uri @ ''>'' @ newline) up)
                   @ newline @ ''DELETE {'' @ newline @ graph_serialize env (removed d) ''nt''
                   @ ''}'' @ newline @ newline
                   @ newline @ ''INSERT {'' @ newline @ graph_serialize env (added d) ''nt''
                   @ ''}'' @ newline @ newline
                   @ ''WHERE {}'')
        \<and> set ns = (\<lambda>t. fst (snd (the (compute_qname env (fst (snd t))))))
                      ` set (overlap d @ removed d @ added d)
        \<and> set up \<subseteq> {(k, v). (k, v) \<in> set prefix_table \<and> v \<in> set ns}
        \<and> (distinct (map fst prefix_table) \<longrightarrow>
              set up = {(k, v). (k, v) \<in> set prefix_table \<and> v \<in> set ns}))"
proof
  assume "\<forall>t\<in>set (overlap d @ removed d @ added d). compute_qname env (fst (snd t)) \<noteq> None"
  from derive_namespaces_ok [OF this, of prefix_table]
  obtain ns where ns: "derive_namespaces env prefix_table d = Inr (ns, pin_prefixes prefix_table ns)"
    "set ns = (\<lambda>t. fst (snd (the (compute_qname env (fst (snd t))))))
                ` set (overlap d @ removed d @ added d)"
    by blast
  have b: "build_query env prefix_table d
            = Inr (concat (map (\<lambda>(ns_prefix, ns_uri).
                             ''PREFIX '' @ ns_prefix @ '': <'' @ ns_uri @ ''>'' @ newline)
                           (pin_prefixes prefix_table ns))
                   @ newline @ ''DELETE {'' @ newline @ graph_serialize env (removed d) ''nt''
                   @ ''}'' @ newline @ newline
                   @ newline @ ''INSERT {'' @ newline @ graph_serialize env (added d) ''nt''
                   @ ''}'' @ newline @ newline
                   @ ''WHERE {}'')"
    using ns(1) by (simp add: build_query_def)
  have c: "set (pin_prefixes prefix_table ns)
      \<subseteq> {(k, v). (k, v) \<in> set prefix_table \<and> v \<in> set ns}"
    by (rule pin_prefixes_subset)
  have e: "distinct (map fst prefix_table) \<longrightarrow>
      set (pin_prefixes prefix_table ns) = {(k, v). (k, v) \<in> set prefix_table \<and> v \<in> set ns}"
    using pin_prefixes_distinct by blast
  from ns b c e
  show "\<exists>ns up. derive_namespaces env prefix_table d = Inr (ns, up)
        \<and> build_query env prefix_table d
            = Inr (concat (map (\<lambda>(ns_prefix, ns_uri).
                             ''PREFIX '' @ ns_prefix @ '': <'' @ ns_uri @ ''>'' @ newline) up)
                   @ newline @ ''DELETE {'' @ newline @ graph_serialize env (removed d) ''nt''
                   @ ''}'' @ newline @ newline
                   @ newline @ ''INSERT {'' @ newline @ graph_serialize env (added d) ''nt''
                   @ ''}'' @ newline @ newline
                   @ ''WHERE {}'')
        \<and> set ns = (\<lambda>t. fst (snd (the (compute_qname env (fst (snd t))))))
                      ` set (overlap d @ removed d @ added d)
        \<and> set up \<subseteq> {(k, v). (k, v) \<in> set prefix_table \<and> v \<in> set ns}
        \<and> (distinct (map fst prefix_table) \<longrightarrow>
              set up = {(k, v). (k, v) \<in> set prefix_table \<and> v \<in> set ns})"
    by (intro exI [of _ ns] exI [of _ "pin_prefixes prefix_table ns"] conjI)
qed

theorem build_query_unbound_namespace_witness:
  "list_all (\<lambda>t. compute_qname nt_env (fst (snd t)) \<noteq> None)
     (overlap bound_diff @ removed bound_diff @ added bound_diff)
   \<and> distinct (map fst default_context)
   \<and> (\<exists>ns up. derive_namespaces nt_env default_context bound_diff = Inr (ns, up)
        \<and> build_query nt_env default_context bound_diff
            = Inr (concat (map (\<lambda>(ns_prefix, ns_uri).
                             ''PREFIX '' @ ns_prefix @ '': <'' @ ns_uri @ ''>'' @ newline) up)
                   @ newline @ ''DELETE {'' @ newline
                   @ graph_serialize nt_env (removed bound_diff) ''nt''
                   @ ''}'' @ newline @ newline
                   @ newline @ ''INSERT {'' @ newline
                   @ graph_serialize nt_env (added bound_diff) ''nt''
                   @ ''}'' @ newline @ newline
                   @ ''WHERE {}'')
        \<and> set up = {(k, v). (k, v) \<in> set default_context \<and> v \<in> set ns})
   \<and> derive_namespaces nt_env default_context bound_diff
       = Inr ([''http://www.w3.org/1999/02/22-rdf-syntax-ns#''],
              [(''rdf'', ''http://www.w3.org/1999/02/22-rdf-syntax-ns#'')])"
proof -
  have a: "list_all (\<lambda>t. compute_qname nt_env (fst (snd t)) \<noteq> None)
     (overlap bound_diff @ removed bound_diff @ added bound_diff)"
    by code_simp
  then have a': "\<forall>t\<in>set (overlap bound_diff @ removed bound_diff @ added bound_diff).
      compute_qname nt_env (fst (snd t)) \<noteq> None"
    unfolding list_all_iff .
  have b: "distinct (map fst default_context)"
    by code_simp
  have c: "derive_namespaces nt_env default_context bound_diff
       = Inr ([''http://www.w3.org/1999/02/22-rdf-syntax-ns#''],
              [(''rdf'', ''http://www.w3.org/1999/02/22-rdf-syntax-ns#'')])"
    by code_simp
  show ?thesis
    using a a' b c
      build_query_unbound_namespace [where env = nt_env and d = bound_diff
        and prefix_table = default_context]
    by blast
qed

text \<open>
  The claim as stated fails: for a triple added with the predicate
  \<open>http://example.org/ns#title\<close>, whose namespace no prefix of the default context is
  bound to, \<open>build_query\<close> returns a document without any \<open>PREFIX\<close> line.
\<close>

theorem build_query_unbound_namespace_counterexample:
  "map_of default_context ''ns1'' = None
   \<and> ''http://example.org/ns#'' \<notin> snd ` set default_context
   \<and> compute_qname nt_env (URIRef ''http://example.org/ns#title'')
       = Some (''ns1'', ''http://example.org/ns#'', ''title'')
   \<and> build_query nt_env default_context unbound_diff
       = Inr (newline @ ''DELETE {'' @ newline @ ''}'' @ newline @ newline
              @ newline @ ''INSERT {'' @ newline
              @ ''<http://localhost:8080/rest/x> <http://example.org/ns#title> ''
              @ [CHR 0x22] @ ''t'' @ [CHR 0x22] @ '' .'' @ newline
              @ ''}'' @ newline @ newline
              @ ''WHERE {}'')"
  by code_simp

section \<open>Resolving the resource type\<close>

lemma str_split_aux_skip:
  "c \<notin> set x \<Longrightarrow> str_split_aux (c # sep) acc (x @ rest) = str_split_aux (c # sep) (rev x @ acc) rest"
  by (induction x arbitrary: acc) auto

lemma str_split_aux_sep:
  "str_split_aux (c # sep) acc ((c # sep) @ rest) = rev acc # str_split_aux (c # sep) [] rest"
  by simp

lemma str_split_aux_piece:
  "c \<notin> set x \<Longrightarrow>
     str_split_aux (c # sep) [] (x @ (c # sep) @ rest) = x # str_split_aux (c # sep) [] rest"
  using str_split_aux_skip [of c x sep "[]" "(c # sep) @ rest"]
    str_split_aux_sep [of c sep "rev x" rest]
  by simp

lemma str_split_aux_last:
  "c \<notin> set x \<Longrightarrow> str_split_aux (c # sep) [] x = [x]"
  using str_split_aux_skip [of c x sep "[]" "[]"] by simp

lemma str_split_join:
  "xs \<noteq> [] \<Longrightarrow> \<forall>x\<in>set xs. c \<notin> set x \<Longrightarrow> str_split (c # sep) (join (c # sep) xs) = xs"
proof (induction "c # sep" xs rule: join.induct)
  case 1
  then show ?case by simp
next
  case (2 x)
  then show ?case by (simp add: str_split_def str_split_aux_last)
next
  case (3 x y ys)
  from 3 have "str_split (c # sep) (join (c # sep) (y # ys)) = y # ys" by simp
  moreover from 3 have "c \<notin> set x" by simp
  ultimately show ?case
    using str_split_aux_piece [of c x sep "join (c # sep) (y # ys)"]
    by (simp add: str_split_def)
qed

lemma hd_split_link_entry:
  assumes "CHR '';'' \<notin> set u"
  shows "hd (str_split '';'' (link_entry (u, p))) = ''<'' @ u @ ''>''"
proof -
  from assms have "CHR '';'' \<notin> set (''<'' @ u @ ''>'')" by simp
  from str_split_aux_piece [OF this, of "[]" p] show ?thesis
    by (simp add: str_split_def link_entry_def)
qed

lemma parse_links_link_header:
  assumes "\<forall>e\<in>set es. CHR '','' \<notin> set (fst e) \<and> CHR '','' \<notin> set (snd e) \<and> CHR '';'' \<notin> set (fst e)"
  shows "parse_links (link_header es)
           = [''<'' @ fst e @ ''>''. e \<leftarrow> es,
                startswith (link_entry e) ''<http://www.w3.org/ns/ldp#'']"
proof (cases "es = []")
  case True
  then show ?thesis
    by (simp add: parse_links_def link_header_def str_split_def startswith_def)
next
  case False
  from assms have "\<forall>x\<in>set (map link_entry es). CHR '','' \<notin> set x"
    by (auto simp: link_entry_def)
  with False have s: "str_split '', '' (link_header es) = map link_entry es"
    unfolding link_header_def using str_split_join [of "map link_entry es" "CHR '',''" "'' ''"]
    by simp
  have "concat (map (\<lambda>link. if startswith link ''<http://www.w3.org/ns/ldp#''
                             then [hd (str_split '';'' link)] else []) (map link_entry es))
        = concat (map (\<lambda>e. if startswith (link_entry e) ''<http://www.w3.org/ns/ldp#''
                             then [''<'' @ fst e @ ''>''] else []) es)"
    using assms
  proof (induction es)
    case Nil
    then show ?case by simp
  next
    case (Cons e es)
    obtain u p where e: "e = (u, p)" by (cases e)
    with Cons.prems have "CHR '';'' \<notin> set u" by simp
    from hd_split_link_entry [OF this, of p] e Cons show ?case by simp
  qed
  with s show ?thesis by (simp add: parse_links_def)
qed

lemma link_entry_startswith: "startswith (link_entry (n @ t, p)) (''<'' @ n)"
  by (simp add: startswith_def link_entry_def)

lemma ldp_type_in_links:
  assumes "\<forall>e\<in>set es. CHR '','' \<notin> set (fst e) \<and> CHR '','' \<notin> set (snd e) \<and> CHR '';'' \<notin> set (fst e)"
  shows "''<'' @ (''http://www.w3.org/ns/ldp#'' @ t) @ ''>'' \<in> set (parse_links (link_header es))
           \<longleftrightarrow> ''http://www.w3.org/ns/ldp#'' @ t \<in> fst ` set es"
proof
  assume "''<'' @ (''http://www.w3.org/ns/ldp#'' @ t) @ ''>'' \<in> set (parse_links (link_header es))"
  then obtain e where "e \<in> set es"
    "''<'' @ (''http://www.w3.org/ns/ldp#'' @ t) @ ''>'' = ''<'' @ fst e @ ''>''"
    unfolding parse_links_link_header [OF assms] by auto
  then have "e \<in> set es" "fst e = ''http://www.w3.org/ns/ldp#'' @ t" by simp_all
  then show "''http://www.w3.org/ns/ldp#'' @ t \<in> fst ` set es" by force
next
  assume "''http://www.w3.org/ns/ldp#'' @ t \<in> fst ` set es"
  then obtain p where e: "(''http://www.w3.org/ns/ldp#'' @ t, p) \<in> set es" by force
  have "startswith (link_entry (''http://www.w3.org/ns/ldp#'' @ t, p))
          (''<'' @ ''http://www.w3.org/ns/ldp#'')"
    by (rule link_entry_startswith)
  then have "startswith (link_entry (''http://www.w3.org/ns/ldp#'' @ t, p))
          ''<http://www.w3.org/ns/ldp#''" by simp
  with e have "''<'' @ fst (''http://www.w3.org/ns/ldp#'' @ t, p) @ ''>''
      \<in> set [''<'' @ fst e @ ''>''. e \<leftarrow> es,
                startswith (link_entry e) ''<http://www.w3.org/ns/ldp#'']"
    by (auto simp del: append.simps intro!: bexI [of _ "(''http://www.w3.org/ns/ldp#'' @ t, p)"])
  then show "''<'' @ (''http://www.w3.org/ns/ldp#'' @ t) @ ''>'' \<in> set (parse_links (link_header es))"
    unfolding parse_links_link_header [OF assms] by simp
qed

text \<open>
  Claim C2, as amended. For a response that carries a \<open>Link\<close> header made of entries
  \<open><uri>;params\<close> joined by \<open>', '\<close> (no comma in an entry, no semicolon in a URI),
  \<open>parse_resource_type\<close> returns the type whose LDP URI is among the URIs of the
  entries, the first of NonRDFSource, BasicContainer, DirectContainer,
  IndirectContainer when several are, and the "unknown" value (\<open>False\<close> in the source,
  \<open>None\<close> here) when none is.
\<close>

theorem parse_resource_type_priority:
  assumes "\<forall>e\<in>set es. CHR '','' \<notin> set (fst e) \<and> CHR '','' \<notin> set (snd e) \<and> CHR '';'' \<notin> set (fst e)"
    and "response_header (headers resp) ''Link'' = Some (link_header es)"
  shows "parse_resource_type resp
           = Inr (if ''http://www.w3.org/ns/ldp#NonRDFSource'' \<in> fst ` set es
                  then Some NonRDFSource
                  else if ''http://www.w3.org/ns/ldp#BasicContainer'' \<in> fst ` set es
                  then Some BasicContainer
                  else if ''http://www.w3.org/ns/ldp#DirectContainer'' \<in> fst ` set es
                  then Some DirectContainer
                  else if ''http://www.w3.org/ns/ldp#IndirectContainer'' \<in> fst ` set es
                  then Some IndirectContainer
                  else None)"
proof -
  have a: "''<http://www.w3.org/ns/ldp#NonRDFSource>'' \<in> set (parse_links (link_header es))
        \<longleftrightarrow> ''http://www.w3.org/ns/ldp#NonRDFSource'' \<in> fst ` set es"
    using ldp_type_in_links [OF assms(1), of "''NonRDFSource''"] by simp
  have b: "''<http://www.w3.org/ns/ldp#BasicContainer>'' \<in> set (parse_links (link_header es))
        \<longleftrightarrow> ''http://www.w3.org/ns/ldp#BasicContainer'' \<in> fst ` set es"
    using ldp_type_in_links [OF assms(1), of "''BasicContainer''"] by simp
  have c: "''<http://www.w3.org/ns/ldp#DirectContainer>'' \<in> set (parse_links (link_header es))
        \<longleftrightarrow> ''http://www.w3.org/ns/ldp#DirectContainer'' \<in> fst ` set es"
    using ldp_type_in_links [OF assms(1), of "''DirectContainer''"] by simp
  have d: "''<http://www.w3.org/ns/ldp#IndirectContainer>'' \<in> set (parse_links (link_header es))
        \<longleftrightarrow> ''http://www.w3.org/ns/ldp#IndirectContainer'' \<in> fst ` set es"
    using ldp_type_in_links [OF assms(1), of "''IndirectContainer''"] by simp
  show ?thesis
    unfolding parse_resource_type_def assms(2) Let_def option.case a b c d
    by simp
qed


theorem parse_resource_type_priority_witness:
  "list_all (\<lambda>e. CHR '','' \<notin> set (fst e) \<and> CHR '','' \<notin> set (snd e) \<and> CHR '';'' \<notin> set (fst e))
     [(''http://www.w3.org/ns/ldp#Resource'', rel_type),
      (''http://www.w3.org/ns/ldp#Container'', rel_type),
      (''http://www.w3.org/ns/ldp#BasicContainer'', rel_type)]
   \<and> response_header
       (headers (link_response
          [(''http://www.w3.org/ns/ldp#Resource'', rel_type),
           (''http://www.w3.org/ns/ldp#Container'', rel_type),
           (''http://www.w3.org/ns/ldp#BasicContainer'', rel_type)])) ''Link''
       = Some (link_header
          [(''http://www.w3.org/ns/ldp#Resource'', rel_type),
           (''http://www.w3.org/ns/ldp#Container'', rel_type),
           (''http://www.w3.org/ns/ldp#BasicContainer'', rel_type)])
   \<and> parse_resource_type (link_response
          [(''http://www.w3.org/ns/ldp#Resource'', rel_type),
           (''http://www.w3.org/ns/ldp#Container'', rel_type),
           (''http://www.w3.org/ns/ldp#BasicContainer'', rel_type)])
       = Inr (Some BasicContainer)
   \<and> parse_resource_type (link_response
          [(''http://www.w3.org/ns/ldp#BasicContainer'', rel_type),
           (''http://www.w3.org/ns/ldp#NonRDFSource'', rel_type)])
       = Inr (Some NonRDFSource)
   \<and> parse_resource_type (link_response [(''http://www.w3.org/ns/ldp#Resource'', rel_type)])
       = Inr None"
proof -
  let ?P = "\<lambda>e. CHR '','' \<notin> set (fst e) \<and> CHR '','' \<notin> set (snd e) \<and> CHR '';'' \<notin> set (fst e)"
  let ?e1 = "[(''http://www.w3.org/ns/ldp#Resource'', rel_type),
      (''http://www.w3.org/ns/ldp#Container'', rel_type),
      (''http://www.w3.org/ns/ldp#BasicContainer'', rel_type)]"
  let ?e2 = "[(''http://www.w3.org/ns/ldp#BasicContainer'', rel_type),
      (''http://www.w3.org/ns/ldp#NonRDFSource'', rel_type)]"
  let ?e3 = "[(''http://www.w3.org/ns/ldp#Resource'', rel_type)]"
  let ?pick = "\<lambda>es. if ''http://www.w3.org/ns/ldp#NonRDFSource'' \<in> fst ` set es
                  then Some NonRDFSource
                  else if ''http://www.w3.org/ns/ldp#BasicContainer'' \<in> fst ` set es
                  then Some BasicContainer
                  else if ''http://www.w3.org/ns/ldp#DirectContainer'' \<in> fst ` set es
                  then Some DirectContainer
                  else if ''http://www.w3.org/ns/ldp#IndirectContainer'' \<in> fst ` set es
                  then Some IndirectContainer
                  else None"
  have a: "list_all ?P ?e1" "list_all ?P ?e2" "list_all ?P ?e3"
    by code_simp+
  have h: "response_header (headers (link_response ?e1)) ''Link'' = Some (link_header ?e1)"
    "response_header (headers (link_response ?e2)) ''Link'' = Some (link_header ?e2)"
    "response_header (headers (link_response ?e3)) ''Link'' = Some (link_header ?e3)"
    by code_simp+
  have m: "?pick ?e1 = Some BasicContainer" "?pick ?e2 = Some NonRDFSource" "?pick ?e3 = None"
    by code_simp+
  have "parse_resource_type (link_response ?e1) = Inr (?pick ?e1)"
    using parse_resource_type_priority [of ?e1 "link_response ?e1"] a(1) h(1)
    unfolding list_all_iff by blast
  moreover have "parse_resource_type (link_response ?e2) = Inr (?pick ?e2)"
    using parse_resource_type_priority [of ?e2 "link_response ?e2"] a(2) h(2)
    unfolding list_all_iff by blast
  moreover have "parse_resource_type (link_response ?e3) = Inr (?pick ?e3)"
    using parse_resource_type_priority [of ?e3 "link_response ?e3"] a(3) h(3)
    unfolding list_all_iff by blast
  ultimately show ?thesis
    unfolding m using a(1) h(1) by blast
qed

text \<open>
  The claim as stated, for every response, fails: a response without a \<open>Link\<close> header
  holds none of the four values, and \<open>parse_resource_type\<close> raises a \<open>KeyError\<close> where
  the claim says it returns the "unknown" value; and in a header whose entries are
  joined by a comma without a space only the first entry is read, so that a
  NonRDFSource value in the second entry is not found.
\<close>

theorem parse_resource_type_no_link_counterexample:
  "response_header (headers (plain_response 200)) ''Link'' = None
   \<and> parse_resource_type (plain_response 200) = Inl (KeyError ''Link'')
   \<and> parse_resource_type
       \<lparr>status_code = 200,
        headers = [(''Link'', link_entry (''http://www.w3.org/ns/ldp#Resource'', rel_type)
                      @ '','' @ link_entry (''http://www.w3.org/ns/ldp#NonRDFSource'', rel_type))],
        content = [], resp_text = []\<rparr> = Inr None"
  by code_simp

end
